theory Spec2Isabelle
  imports Complex_Main "HOL-Library.Word" "HOL-Library.Sublist"
begin

chapter \<open>jsoncons: the source family and the value variant\<close>

section \<open>Sources (include/jsoncons/source.hpp)\<close>

subsection \<open>The caller's buffer\<close>

text \<open>
  \<open>read(p, length)\<close> stores units through the raw pointer \<open>p\<close>. The memory from \<open>p\<close>
  upwards is a map from offsets to units: cell \<open>i\<close> is \<open>p[i]\<close>, the caller's buffer is the
  cells \<open>0 ..< length\<close>, and the cells from \<open>length\<close> on are whatever lies behind the
  buffer. \<open>memcpy p off xs\<close> is \<open>memcpy(p + off, xs, |xs|)\<close>.
\<close>

type_synonym 'a memory = "nat \<Rightarrow> 'a option"

definition memcpy :: "'a memory \<Rightarrow> nat \<Rightarrow> 'a list \<Rightarrow> 'a memory" where
  "memcpy p off xs =
     (\<lambda>i. if off \<le> i \<and> i < off + length xs then Some (xs ! (i - off)) else p i)"

subsection \<open>string_source and bytes_source\<close>

text \<open>
  The three pointers \<open>data_\<close>, \<open>current_\<close>, \<open>end_\<close> (here \<open>data_ptr\<close>, \<open>current_ptr\<close>,
  \<open>end_ptr\<close>: a name cannot end in an underscore) are offsets into the caller-owned
  sequence \<open>units\<close> they point into. \<open>bytes_source\<close> has the same three fields over
  \<open>uint8_t\<close>.
\<close>

record 'a string_source =
  units :: "'a list"
  data_ptr :: nat
  current_ptr :: nat
  end_ptr :: nat

type_synonym bytes_source = "8 word string_source"

text \<open>The constructor from a sequence \<open>s\<close>: \<open>data_(s.data()), current_(s.data()),
  end_(s.data()+s.size())\<close>.\<close>

definition string_source_init :: "'a list \<Rightarrow> 'a string_source" where
  "string_source_init s = \<lparr>units = s, data_ptr = 0, current_ptr = 0, end_ptr = length s\<rparr>"

definition bytes_source_init :: "8 word list \<Rightarrow> bytes_source" where
  "bytes_source_init s = \<lparr>units = s, data_ptr = 0, current_ptr = 0, end_ptr = length s\<rparr>"

definition string_source_eof :: "'a string_source \<Rightarrow> bool" where
  "string_source_eof s = (current_ptr s = end_ptr s)"

text \<open>\<open>position()\<close> is \<open>(current_ - data_)/sizeof(value_type) + 1\<close>; \<open>sz\<close> is
  \<open>sizeof(value_type)\<close>.\<close>

definition string_source_position :: "nat \<Rightarrow> 'a string_source \<Rightarrow> nat" where
  "string_source_position sz s = (current_ptr s - data_ptr s) div sz + 1"

definition bytes_source_position :: "bytes_source \<Rightarrow> nat" where
  "bytes_source_position s = current_ptr s - data_ptr s + 1"

definition string_source_ignore :: "'a string_source \<Rightarrow> nat \<Rightarrow> 'a string_source" where
  "string_source_ignore s count =
     (let len = (if end_ptr s - current_ptr s < count then end_ptr s - current_ptr s else count)
      in s\<lparr>current_ptr := current_ptr s + len\<rparr>)"

text \<open>\<open>read\<close> returns the count, the source and the memory behind \<open>p\<close> afterwards.\<close>

definition string_source_read ::
  "'a string_source \<Rightarrow> 'a memory \<Rightarrow> nat \<Rightarrow> nat \<times> 'a string_source \<times> 'a memory" where
  "string_source_read s p n =
     (let len = (if end_ptr s - current_ptr s < n then end_ptr s - current_ptr s else n);
          p' = memcpy p 0 (take len (drop (current_ptr s) (units s)))
      in (len, s\<lparr>current_ptr := current_ptr s + len\<rparr>, p'))"

definition bytes_source_read ::
  "bytes_source \<Rightarrow> 8 word memory \<Rightarrow> nat \<Rightarrow> nat \<times> bytes_source \<times> 8 word memory" where
  "bytes_source_read s p n =
     (let len = (if end_ptr s - current_ptr s < n then end_ptr s - current_ptr s else n);
          p' = memcpy p 0 (take len (drop (current_ptr s) (units s)))
      in (len, s\<lparr>current_ptr := current_ptr s + len\<rparr>, p'))"

subsection \<open>iterator_source and binary_iterator_source\<close>

text \<open>
  The iterator pair is the list \<open>iter_range\<close> of the elements in \<open>[current_, end_)\<close>:
  \<open>current_ != end_\<close> is \<open>iter_range \<noteq> []\<close>, \<open>*current_\<close> is its head, \<open>++current_\<close> its
  tail, \<open>std::distance(current_, end_)\<close> its length.
\<close>

record 'a iterator_source =
  iter_range :: "'a list"
  iter_position :: nat

definition iterator_source_init :: "'a list \<Rightarrow> 'a iterator_source" where
  "iterator_source_init xs = \<lparr>iter_range = xs, iter_position = 0\<rparr>"

definition iterator_source_eof :: "'a iterator_source \<Rightarrow> bool" where
  "iterator_source_eof s = (\<not> (iter_range s \<noteq> []))"

definition iterator_source_position :: "'a iterator_source \<Rightarrow> nat" where
  "iterator_source_position s = iter_position s"

text \<open>\<open>while (count-- > 0 && current_ != end_) { ++position_; ++current_; }\<close>\<close>

fun iterator_source_ignore :: "'a iterator_source \<Rightarrow> nat \<Rightarrow> 'a iterator_source" where
  "iterator_source_ignore s 0 = s"
| "iterator_source_ignore s (Suc count) =
     (if iter_range s \<noteq> []
      then iterator_source_ignore
             (s\<lparr>iter_position := iter_position s + 1, iter_range := tl (iter_range s)\<rparr>) count
      else s)"

text \<open>
  The loop of the element-wise overloads,
  \<open>while (p < pend && current_ != end_) { *p = cast(*current_); ++p; ++current_; }\<close>:
  \<open>k\<close> is \<open>p - data\<close>, \<open>n\<close> is \<open>pend - p\<close>, and the result is the final \<open>p - data\<close>, the
  iterator and the memory.
\<close>

fun copy_loop ::
  "('b \<Rightarrow> 'a) \<Rightarrow> 'b list \<Rightarrow> 'a memory \<Rightarrow> nat \<Rightarrow> nat \<Rightarrow> nat \<times> 'b list \<times> 'a memory" where
  "copy_loop cast cur p k 0 = (k, cur, p)"
| "copy_loop cast cur p k (Suc n) =
     (case cur of
        [] \<Rightarrow> (k, cur, p)
      | x # rest \<Rightarrow> copy_loop cast rest (p(k \<mapsto> cast x)) (Suc k) n)"

text \<open>The plain \<open>read\<close> (lines 413-428) and the random-access overload (lines 430-447).\<close>

definition iterator_source_read ::
  "'a iterator_source \<Rightarrow> 'a memory \<Rightarrow> nat \<Rightarrow> nat \<times> 'a iterator_source \<times> 'a memory" where
  "iterator_source_read s dat n =
     (case copy_loop (\<lambda>x. x) (iter_range s) dat 0 n of
        (k, cur, p') \<Rightarrow> (k, s\<lparr>iter_range := cur, iter_position := iter_position s + k\<rparr>, p'))"

definition iterator_source_read_random_access ::
  "'a iterator_source \<Rightarrow> 'a memory \<Rightarrow> nat \<Rightarrow> nat \<times> 'a iterator_source \<times> 'a memory" where
  "iterator_source_read_random_access s dat n =
     (case copy_loop (\<lambda>x. x) (iter_range s) dat 0 n of
        (k, cur, p') \<Rightarrow> (k, s\<lparr>iter_range := cur, iter_position := iter_position s + k\<rparr>, p'))"

text \<open>
  The overload for iterators that are not random access (lines 449-463):
  \<open>count = min(length, distance(current_, end_)); std::copy(current_, end_, data);
  current_ += count; position_ += count; return count;\<close>
\<close>

definition iterator_source_read_not_random_access ::
  "'a iterator_source \<Rightarrow> 'a memory \<Rightarrow> nat \<Rightarrow> nat \<times> 'a iterator_source \<times> 'a memory" where
  "iterator_source_read_not_random_access s dat n =
     (let count = min n (length (iter_range s));
          p' = memcpy dat 0 (iter_range s)
      in (count, s\<lparr>iter_range := drop count (iter_range s), iter_position := iter_position s + count\<rparr>, p'))"

text \<open>\<open>binary_iterator_source\<close>: \<open>value_type\<close> is \<open>uint8_t\<close>, and \<open>cast\<close> is the
  \<open>static_cast<value_type>\<close> from the iterator's element type.\<close>

definition binary_iterator_source_read_random_access ::
  "('b \<Rightarrow> 8 word) \<Rightarrow> 'b iterator_source \<Rightarrow> 8 word memory \<Rightarrow> nat
   \<Rightarrow> nat \<times> 'b iterator_source \<times> 8 word memory" where
  "binary_iterator_source_read_random_access cast s dat n =
     (case copy_loop cast (iter_range s) dat 0 n of
        (k, cur, p') \<Rightarrow> (k, s\<lparr>iter_range := cur, iter_position := iter_position s + k\<rparr>, p'))"

definition binary_iterator_source_read_not_random_access ::
  "('b \<Rightarrow> 8 word) \<Rightarrow> 'b iterator_source \<Rightarrow> 8 word memory \<Rightarrow> nat
   \<Rightarrow> nat \<times> 'b iterator_source \<times> 8 word memory" where
  "binary_iterator_source_read_not_random_access cast s dat n =
     (let count = min n (length (iter_range s));
          p' = memcpy dat 0 (map cast (iter_range s))
      in (count, s\<lparr>iter_range := drop count (iter_range s), iter_position := iter_position s + count\<rparr>, p'))"

subsection \<open>stream_source\<close>

text \<open>
  The stream behind \<open>stream_ptr_\<close> and its buffer \<open>sbuf_\<close>: the two state bits the source
  consults, the units the stream buffer can still deliver, and whether the transport
  throws when asked for more. \<open>sgetn sb n\<close> is \<open>sbuf_->sgetn(p, n)\<close>: \<open>Inl\<close> when it
  throws, otherwise the units it stored and the stream afterwards.
\<close>

record 'a basic_istream =
  eofbit :: bool
  badbit :: bool
  pending :: "'a list"
  throws :: bool

definition sgetn :: "'a basic_istream \<Rightarrow> nat \<Rightarrow> unit + ('a list \<times> 'a basic_istream)" where
  "sgetn sb n =
     (if throws sb then Inl ()
      else Inr (take n (pending sb), sb\<lparr>pending := drop n (pending sb)\<rparr>))"

record 'a stream_source =
  stream :: "'a basic_istream"
  position :: nat
  buffer :: "'a list"
  buffer_data :: nat
  buffer_length :: nat
  eof_flag :: bool

definition default_max_buffer_length :: nat where
  "default_max_buffer_length = 16384"

text \<open>The constructor from a stream: a buffer of \<open>buf_size\<close> value-initialised units.\<close>

definition stream_source_init :: "'a::zero basic_istream \<Rightarrow> nat \<Rightarrow> 'a stream_source" where
  "stream_source_init is buf_size =
     \<lparr>stream = is, position = 0, buffer = replicate buf_size 0, buffer_data = 0,
      buffer_length = 0, eof_flag = False\<rparr>"

definition stream_source_eof :: "'a stream_source \<Rightarrow> bool" where
  "stream_source_eof s = eof_flag s"

definition stream_source_is_error :: "'a stream_source \<Rightarrow> bool" where
  "stream_source_is_error s = badbit (stream s)"

definition stream_source_position :: "'a stream_source \<Rightarrow> nat" where
  "stream_source_position s = position s"

definition fill_buffer :: "'a stream_source \<Rightarrow> 'a stream_source" where
  "fill_buffer s =
     (if eofbit (stream s) then s\<lparr>eof_flag := True, buffer_length := 0\<rparr>
      else
        let s1 = s\<lparr>buffer_data := 0\<rparr> in
        (case sgetn (stream s1) (length (buffer s1)) of
           Inr (xs, is') \<Rightarrow>
             let s2 = s1\<lparr>stream := is', buffer := xs @ drop (length xs) (buffer s1),
                         buffer_length := length xs\<rparr>
             in if buffer_length s2 < length (buffer s2)
                then s2\<lparr>stream := (stream s2)\<lparr>eofbit := True\<rparr>\<rparr>
                else s2
         | Inl _ \<Rightarrow>
             s1\<lparr>stream := (stream s1)\<lparr>badbit := True, eofbit := True\<rparr>, buffer_length := 0\<rparr>))"

text \<open>The three updates \<open>buffer_data_ += len; buffer_length_ -= len; position_ += len\<close>
  that follow each copy out of the internal buffer, and the \<open>len\<close> units at
  \<open>buffer_data_\<close>.\<close>

definition consume :: "'a stream_source \<Rightarrow> nat \<Rightarrow> 'a stream_source" where
  "consume s len =
     s\<lparr>position := position s + len, buffer_data := buffer_data s + len,
       buffer_length := buffer_length s - len\<rparr>"

definition buffered :: "'a stream_source \<Rightarrow> nat \<Rightarrow> 'a list" where
  "buffered s len = take len (drop (buffer_data s) (buffer s))"

text \<open>
  \<open>memcpy(p + off, buffer_data_, len)\<close> as \<open>read\<close> calls it: the third argument of
  \<open>memcpy\<close> is a number of bytes, and \<open>read\<close> passes the number \<open>len\<close> of units. With
  \<open>sz = sizeof(value_type)\<close> the call stores the first \<open>len div sz\<close> of the units \<open>xs\<close>
  at \<open>buffer_data_\<close>, and the first \<open>len mod sz\<close> bytes of the next one into the unit
  behind them: \<open>overlay r x old\<close> is the unit made of the first \<open>r\<close> bytes of \<open>x\<close> and the
  remaining bytes of what the cell held (\<open>old\<close>, \<open>None\<close> when it held nothing). For
  single-byte units this is \<open>memcpy p off xs\<close>.
\<close>

definition memcpy_bytes ::
  "nat \<Rightarrow> (nat \<Rightarrow> 'a \<Rightarrow> 'a option \<Rightarrow> 'a) \<Rightarrow> 'a memory \<Rightarrow> nat \<Rightarrow> 'a list \<Rightarrow> nat \<Rightarrow> 'a memory" where
  "memcpy_bytes sz overlay p off xs len =
     (let whole = len div sz;
          r = len mod sz;
          p1 = memcpy p off (take whole xs)
      in if r > 0 \<and> whole < length xs
         then p1(off + whole \<mapsto> overlay r (xs ! whole) (p (off + whole)))
         else p1)"

text \<open>
  \<open>read(p, length)\<close>: first what the internal buffer holds; then, for a rest smaller than
  the buffer, one refill; for a larger rest, straight from the stream, where \<open>sgetn\<close>
  counts in units.
\<close>

definition stream_source_read ::
  "nat \<Rightarrow> (nat \<Rightarrow> 'a \<Rightarrow> 'a option \<Rightarrow> 'a) \<Rightarrow> 'a stream_source \<Rightarrow> 'a memory \<Rightarrow> nat
   \<Rightarrow> nat \<times> 'a stream_source \<times> 'a memory" where
  "stream_source_read sz overlay s p n =
     (let (len, s1, p1) =
            (if buffer_length s > 0
             then let len = min (buffer_length s) n
                  in (len, consume s len, memcpy_bytes sz overlay p 0 (buffered s len) len)
             else (0, s, p))
      in if n - len = 0 then (len, s1, p1)
         else if n - len < length (buffer s1) then
           let s2 = fill_buffer s1 in
           if buffer_length s2 > 0
           then let len2 = min (buffer_length s2) (n - len)
                in (len + len2, consume s2 len2,
                    memcpy_bytes sz overlay p1 len (buffered s2 len2) len2)
           else (len, s2, p1)
         else if eofbit (stream s1) then (0, s1\<lparr>eof_flag := True, buffer_length := 0\<rparr>, p1)
         else
           (case sgetn (stream s1) (n - len) of
              Inr (xs, is') \<Rightarrow>
                let len2 = length xs;
                    is2 = (if len2 < n - len then is'\<lparr>eofbit := True\<rparr> else is')
                in (len + len2, s1\<lparr>stream := is2, position := position s1 + len2\<rparr>,
                    memcpy p1 len xs)
            | Inl _ \<Rightarrow>
                (0, s1\<lparr>stream := (stream s1)\<lparr>badbit := True, eofbit := True\<rparr>\<rparr>, p1)))"

subsection \<open>source_reader (the bulk reader)\<close>

definition max_buffer_length :: nat where
  "max_buffer_length = 16384"

text \<open>
  \<open>v.data() + offset\<close> as the memory a \<open>read\<close> writes to, and the vector after the
  \<open>read\<close> has written there. A store behind the vector's last element does not change
  the vector.
\<close>

definition vector_region :: "'a list \<Rightarrow> nat \<Rightarrow> 'a memory" where
  "vector_region v offset = (\<lambda>i. if offset + i < length v then Some (v ! (offset + i)) else None)"

definition vector_commit :: "'a list \<Rightarrow> nat \<Rightarrow> 'a memory \<Rightarrow> 'a list" where
  "vector_commit v offset p =
     take offset v @
     map (\<lambda>i. case p i of Some x \<Rightarrow> x | None \<Rightarrow> v ! (offset + i)) [0 ..< length v - offset]"

text \<open>
  The contiguous fast path (lines 641-662), for any \<open>Source\<close> given by its \<open>eof\<close> and its
  \<open>read\<close>. The loop state is the source, the container \<open>v\<close>, \<open>unread\<close> and \<open>n\<close>. A loop
  that never ends is the value \<open>None\<close>. Sizes are natural numbers: \<open>unread -= actual\<close>
  cannot wrap for a \<open>read\<close> that returns at most the \<open>n\<close> it was asked for, as the
  \<open>read\<close> of every source here does, since \<open>n\<close> is at most \<open>unread\<close>.
\<close>

partial_function (option) source_reader_loop ::
  "('s \<Rightarrow> bool) \<Rightarrow> ('s \<Rightarrow> 'a memory \<Rightarrow> nat \<Rightarrow> nat \<times> 's \<times> 'a memory)
   \<Rightarrow> 's \<Rightarrow> 'a::zero list \<Rightarrow> nat \<Rightarrow> nat \<Rightarrow> ('s \<times> 'a list \<times> nat) option" where
  "source_reader_loop eof rd source v unread n =
     (if n > 0 \<and> \<not> eof source then
        let offset = length v;
            v1 = v @ replicate n 0;
            (actual, source', p') = rd source (vector_region v1 offset) n;
            v2 = vector_commit v1 offset p';
            unread' = unread - actual
        in source_reader_loop eof rd source' v2 unread' (min max_buffer_length unread')
      else Some (source, v, unread))"

definition source_reader_read ::
  "('s \<Rightarrow> bool) \<Rightarrow> ('s \<Rightarrow> 'a memory \<Rightarrow> nat \<Rightarrow> nat \<times> 's \<times> 'a memory)
   \<Rightarrow> 's \<Rightarrow> 'a::zero list \<Rightarrow> nat \<Rightarrow> (nat \<times> 's \<times> 'a list) option" where
  "source_reader_read eof rd source v len =
     (case source_reader_loop eof rd source v len (min max_buffer_length len) of
        None \<Rightarrow> None
      | Some (source', v', unread) \<Rightarrow> Some (len - unread, source', v'))"

text \<open>
  For the slice sources, the units in \<open>[current_, end_)\<close>; the pointers of a source made
  by a constructor satisfy \<open>string_source_valid\<close>.
\<close>

definition remaining :: "'a string_source \<Rightarrow> 'a list" where
  "remaining s = take (end_ptr s - current_ptr s) (drop (current_ptr s) (units s))"

definition string_source_valid :: "'a string_source \<Rightarrow> bool" where
  "string_source_valid s = (current_ptr s \<le> end_ptr s \<and> end_ptr s \<le> length (units s))"

text \<open>
  The elements \<open>source_reader::read\<close> leaves behind the units it transferred, for a
  request of \<open>unread\<close> units on a slice source holding \<open>R\<close>: none when the source
  can serve the request or ends on a chunk boundary; otherwise the last chunk's size
  less what the source still had for it.
\<close>

definition padding :: "nat \<Rightarrow> nat \<Rightarrow> nat" where
  "padding unread R =
     (if unread \<le> R \<or> R mod max_buffer_length = 0 then 0
      else min max_buffer_length (unread - (R - R mod max_buffer_length))
           - R mod max_buffer_length)"

section \<open>The value variant (src/jsoncons/json.hpp)\<close>

subsection \<open>Tags, payloads and the heap\<close>

text \<open>The enumeration \<open>value_types_t\<close>, in its order: \<open>is_simple\<close> compares tags by it.\<close>

datatype value_types_t =
    empty_object_t | small_string_t | double_t | integer_t | uinteger_t | bool_t | null_t
  | string_t | object_t | array_t | any_t

primrec enumerator :: "value_types_t \<Rightarrow> nat" where
  "enumerator empty_object_t = 0"
| "enumerator small_string_t = 1"
| "enumerator double_t = 2"
| "enumerator integer_t = 3"
| "enumerator uinteger_t = 4"
| "enumerator bool_t = 5"
| "enumerator null_t = 6"
| "enumerator string_t = 7"
| "enumerator object_t = 8"
| "enumerator array_t = 9"
| "enumerator any_t = 10"

definition is_simple :: "value_types_t \<Rightarrow> bool" where
  "is_simple t = (enumerator t < enumerator string_t)"

text \<open>
  A \<open>double\<close> by the number it denotes: \<open>==\<close> on doubles is equality of the denoted
  numbers, and false as soon as one side is a NaN. The conversions between doubles and
  64-bit integers round and are left to the platform: the functions that cast take them
  as the parameter \<open>cv\<close>.
\<close>

datatype double = Finite real | PlusInfinity | MinusInfinity | quiet_NaN


record numeric_casts =
  double_of_int64 :: "64 word \<Rightarrow> double"
  double_of_uint64 :: "64 word \<Rightarrow> double"
  int64_of_double :: "double \<Rightarrow> 64 word"
  uint64_of_double :: "double \<Rightarrow> 64 word"

text \<open>
  The struct \<open>variant\<close>: the tag \<open>type_\<close> with the member of the union \<open>value_\<close> it
  selects (and \<open>small_string_length_\<close> for the inline string). The four pointer members
  hold the address of a heap object. Of \<open>small_string_val_\<close> the model keeps the units
  that were written, the terminating zero included.
\<close>

type_synonym addr = nat

datatype 'c variant =
    empty_object_value
  | small_string_val nat "'c list"
  | double_val double
  | integer_val "64 word"
  | uinteger_val "64 word"
  | bool_val bool
  | null_value
  | string_val addr
  | object_val addr
  | array_val addr
  | any_val addr

primrec variant_type :: "'c variant \<Rightarrow> value_types_t" where
  "variant_type empty_object_value = empty_object_t"
| "variant_type (small_string_val len buf) = small_string_t"
| "variant_type (double_val d) = double_t"
| "variant_type (integer_val i) = integer_t"
| "variant_type (uinteger_val u) = uinteger_t"
| "variant_type (bool_val b) = bool_t"
| "variant_type null_value = null_t"
| "variant_type (string_val p) = string_t"
| "variant_type (object_val p) = object_t"
| "variant_type (array_val p) = array_t"
| "variant_type (any_val p) = any_t"

text \<open>
  What a pointer member points to: a \<open>string_data\<close> (its characters), a \<open>json_array\<close>
  (its elements), a \<open>json_object\<close> (its members, name and value), a \<open>serializable_any\<close>
  (its \<open>impl_\<close>, \<open>None\<close> for \<open>nullptr\<close>), an \<open>any_handle_impl<T>\<close> (its \<open>value_\<close>, as a
  code), or storage that was allocated and not constructed yet.

  The heap is the list of all cells ever allocated: an address is an index, \<open>allocate\<close>
  appends a cell, and a deallocated cell is \<open>None\<close>, so an allocation never returns an
  address in use. Allocators carry no state here.
\<close>

datatype 'c heap_obj =
    string_data "'c list"
  | json_array "'c variant list"
  | json_object "('c list \<times> 'c variant) list"
  | serializable_any "addr option"
  | any_handle_impl nat
  | raw_storage

type_synonym 'c heap = "'c heap_obj option list"

definition lookup :: "'c heap \<Rightarrow> addr \<Rightarrow> 'c heap_obj option" where
  "lookup h p = (if p < length h then h ! p else None)"

definition allocate :: "'c heap \<Rightarrow> addr \<times> 'c heap" where
  "allocate h = (length h, h @ [Some raw_storage])"

definition construct :: "'c heap \<Rightarrow> addr \<Rightarrow> 'c heap_obj \<Rightarrow> 'c heap" where
  "construct h p obj = h[p := Some obj]"

definition deallocate :: "'c heap \<Rightarrow> addr \<Rightarrow> 'c heap" where
  "deallocate h p = h[p := None]"

text \<open>
  \<open>create_instance<T>(allocator, args)\<close>: allocate, then construct in the storage; the
  constructor \<open>ctor\<close> runs on the heap after the allocation and may allocate itself
  (\<open>None\<close>: it did not return).
\<close>

definition create_instance ::
  "('c heap \<Rightarrow> ('c heap_obj \<times> 'c heap) option) \<Rightarrow> 'c heap \<Rightarrow> (addr \<times> 'c heap) option" where
  "create_instance ctor h =
     (case allocate h of
        (storage, h1) \<Rightarrow>
          (case ctor h1 of
             None \<Rightarrow> None
           | Some (obj, h2) \<Rightarrow> Some (storage, construct h2 storage obj)))"

text \<open>
  What the platform decides about the memory of a heap string: \<open>sizeof(char_type)\<close>,
  \<open>sizeof(storage_type)\<close> (the aligned storage of a \<open>string_dataA\<close>, which is a
  \<open>string_data\<close> followed by \<open>char_type c[1]\<close>) and the offset of the member \<open>c\<close> in
  \<open>string_dataA\<close>, in bytes. With 8-byte pointers and \<open>size_t\<close> and an allocator without
  state the \<open>string_data\<close> takes 16 bytes, \<open>c\<close> is at offset 16 and the storage takes 24
  bytes for every character type of up to 8 bytes.
\<close>

record layout =
  sizeof_char_type :: nat
  sizeof_storage_type :: nat
  offsetof_c :: nat

definition lp64 :: "nat \<Rightarrow> layout" where
  "lp64 sz = \<lparr>sizeof_char_type = sz, sizeof_storage_type = 24, offsetof_c = 16\<rparr>"

text \<open>\<open>aligned_size(n)\<close> is \<open>sizeof(storage_type) + n\<close>.\<close>

definition aligned_size :: "layout \<Rightarrow> nat \<Rightarrow> nat" where
  "aligned_size lay n = sizeof_storage_type lay + n"

text \<open>
  \<open>create_string_data(s, length, allocator)\<close>: one allocation of
  \<open>mem_size = aligned_size(length*sizeof(char))\<close> bytes holding the header and the
  characters (\<open>sizeof(char)\<close> is 1). The characters are constructed at \<open>psa->c\<close> and take
  \<open>(length + 1) * sizeof(char_type)\<close> bytes, the \<open>memcpy\<close> of \<open>length*sizeof(char_type)\<close>
  bytes and the terminating zero; \<open>within_block\<close> says that they end inside the block
  that was allocated. When they do not, the function writes behind the block, which is
  undefined: \<open>None\<close>.
\<close>

definition within_block :: "layout \<Rightarrow> nat \<Rightarrow> bool" where
  "within_block lay len =
     (offsetof_c lay + (len + 1) * sizeof_char_type lay \<le> aligned_size lay (len * 1))"

definition create_string_data :: "layout \<Rightarrow> 'c list \<Rightarrow> 'c heap \<Rightarrow> (addr \<times> 'c heap) option" where
  "create_string_data lay s h =
     (case allocate h of
        (storage, h1) \<Rightarrow>
          if within_block lay (length s)
          then Some (storage, construct h1 storage (string_data s))
          else None)"

text \<open>The exceptions the value throws: \<open>std::runtime_error\<close> (the spec's TypeMismatch) and
  \<open>std::out_of_range\<close> (its OutOfRange), with the message.\<close>

datatype exception = runtime_error string | out_of_range string

subsection \<open>Constructors\<close>

text \<open>\<open>variant()\<close> and \<open>basic_json()\<close>.\<close>

definition variant_default :: "'c variant" where
  "variant_default = empty_object_value"

definition basic_json_default :: "'c variant" where
  "basic_json_default = variant_default"

text \<open>\<open>variant(null_type)\<close>.\<close>

definition variant_null :: "'c variant" where
  "variant_null = null_value"

text \<open>
  \<open>small_string_capacity = (sizeof(int64_t)/sizeof(char_type)) - 1\<close>, a \<open>size_t\<close>;
  \<open>sz\<close> is \<open>sizeof(char_type)\<close>.
\<close>

definition small_string_capacity :: "nat \<Rightarrow> nat" where
  "small_string_capacity sz = (8 div sz + 2 ^ 64 - 1) mod 2 ^ 64"

text \<open>
  \<open>memcpy(small_string_val_, s, n * sizeof(char_type)); small_string_val_[len] = 0\<close>: the
  units of the inline buffer that were written (\<open>len\<close> is at most the number \<open>n\<close> of
  units of \<open>s\<close> wherever this is called).
\<close>

definition store_small_string :: "'c::zero list \<Rightarrow> nat \<Rightarrow> 'c list" where
  "store_small_string s len = (if len < length s then s[len := 0] else s @ [0])"

text \<open>\<open>variant(const string_type& s, const Alloc& a)\<close>; the cast to \<open>unsigned char\<close> is the
  \<open>mod 256\<close>.\<close>

definition variant_string ::
  "layout \<Rightarrow> 'c::zero list \<Rightarrow> 'c heap \<Rightarrow> ('c variant \<times> 'c heap) option" where
  "variant_string lay s h =
     (if length s > small_string_capacity (sizeof_char_type lay)
      then (case create_string_data lay s h of
              None \<Rightarrow> None
            | Some (p, h') \<Rightarrow> Some (string_val p, h'))
      else
        let small_string_length = length s mod 256
        in Some (small_string_val small_string_length (store_small_string s small_string_length),
                 h))"

subsection \<open>Observers\<close>

definition is_null :: "'c variant \<Rightarrow> bool" where
  "is_null v = (variant_type v = null_t)"

definition is_bool :: "'c variant \<Rightarrow> bool" where
  "is_bool v = (variant_type v = bool_t)"

definition is_string :: "'c variant \<Rightarrow> bool" where
  "is_string v = (variant_type v = string_t \<or> variant_type v = small_string_t)"


definition is_object :: "'c variant \<Rightarrow> bool" where
  "is_object v = (variant_type v = object_t \<or> variant_type v = empty_object_t)"

definition is_array :: "'c variant \<Rightarrow> bool" where
  "is_array v = (variant_type v = array_t)"

definition is_any :: "'c variant \<Rightarrow> bool" where
  "is_any v = (variant_type v = any_t)"

text \<open>The numeric accessors, in the order of their \<open>switch\<close>.\<close>

definition as_integer :: "numeric_casts \<Rightarrow> 'c variant \<Rightarrow> exception + 64 word" where
  "as_integer cv v =
     (case v of
        double_val d \<Rightarrow> Inr (int64_of_double cv d)
      | integer_val i \<Rightarrow> Inr i
      | uinteger_val u \<Rightarrow> Inr u
      | bool_val b \<Rightarrow> Inr (if b then 1 else 0)
      | _ \<Rightarrow> Inl (runtime_error ''Not an integer''))"

definition as_uinteger :: "numeric_casts \<Rightarrow> 'c variant \<Rightarrow> exception + 64 word" where
  "as_uinteger cv v =
     (case v of
        double_val d \<Rightarrow> Inr (uint64_of_double cv d)
      | integer_val i \<Rightarrow> Inr i
      | uinteger_val u \<Rightarrow> Inr u
      | bool_val b \<Rightarrow> Inr (if b then 1 else 0)
      | _ \<Rightarrow> Inl (runtime_error ''Not an unsigned integer''))"

definition as_double :: "numeric_casts \<Rightarrow> 'c variant \<Rightarrow> exception + double" where
  "as_double cv v =
     (case v of
        double_val d \<Rightarrow> Inr d
      | integer_val i \<Rightarrow> Inr (double_of_int64 cv i)
      | uinteger_val u \<Rightarrow> Inr (double_of_uint64 cv u)
      | null_value \<Rightarrow> Inr quiet_NaN
      | _ \<Rightarrow> Inl (runtime_error ''Not a double''))"

text \<open>
  \<open>as_string()\<close>: the characters of either string representation; every other tag goes
  to \<open>to_string()\<close>, the serializer, which is the parameter. \<open>None\<close> is a pointer that
  does not point to a \<open>string_data\<close>.
\<close>

definition as_string ::
  "('c heap \<Rightarrow> 'c variant \<Rightarrow> 'c list) \<Rightarrow> 'c heap \<Rightarrow> 'c variant \<Rightarrow> 'c list option" where
  "as_string to_string h v =
     (case v of
        small_string_val len buf \<Rightarrow> Some (take len buf)
      | string_val p \<Rightarrow>
          (case lookup h p of Some (string_data s) \<Rightarrow> Some s | _ \<Rightarrow> None)
      | _ \<Rightarrow> Some (to_string h v))"

subsection \<open>Swap and move\<close>

text \<open>
  \<open>swap\<close> exchanges the three fields of two distinct variants; \<open>variant(variant&& var)\<close>
  starts from the tag \<open>null_t\<close> and swaps; \<open>operator=(variant&& val)\<close> swaps. The pairs
  are (\<open>*this\<close>, the argument) afterwards. For one and the same object the guards
  \<open>this == &rhs\<close> leave it as it is.
\<close>

definition variant_swap :: "'c variant \<Rightarrow> 'c variant \<Rightarrow> 'c variant \<times> 'c variant" where
  "variant_swap this rhs = (rhs, this)"

definition variant_move :: "'c variant \<Rightarrow> 'c variant \<times> 'c variant" where
  "variant_move var = variant_swap null_value var"

definition variant_move_assign :: "'c variant \<Rightarrow> 'c variant \<Rightarrow> 'c variant \<times> 'c variant" where
  "variant_move_assign this val = (case variant_swap val this of (val', this') \<Rightarrow> (this', val'))"

text \<open>\<open>basic_json(basic_json&& other)\<close> and \<open>basic_json::operator=(basic_json&& rhs)\<close>.\<close>

definition basic_json_move :: "'c variant \<Rightarrow> 'c variant \<times> 'c variant" where
  "basic_json_move other = variant_move other"

definition basic_json_move_assign :: "'c variant \<Rightarrow> 'c variant \<Rightarrow> 'c variant \<times> 'c variant" where
  "basic_json_move_assign this rhs = variant_move_assign this rhs"

subsection \<open>Copy, destruction and equality\<close>

text \<open>
  These three walk the heap along the pointers, so they take fuel: the first argument
  bounds the depth of the walk, and \<open>None\<close> is a walk that ran out of fuel, followed a
  pointer to something that is not the object its tag announces, or, for the copy, wrote
  a heap string behind its block.
\<close>

text \<open>
  Modelled from the spec: \<open>json_array\<close> and \<open>json_object\<close> (json_structures.hpp is not
  among the sources). An array is the sequence of its elements and an object the
  sequence of its members (name and value), both ordered; copying a container
  copy-constructs every entry in order, destroying it destroys every entry, and two
  containers are equal when they have the same size and equal entries at every
  position ("recursive structural equality of their ordered entries").
\<close>

primrec copy_entries ::
  "('c heap \<Rightarrow> 'x \<Rightarrow> ('y \<times> 'c heap) option) \<Rightarrow> 'c heap \<Rightarrow> 'x list \<Rightarrow> ('y list \<times> 'c heap) option"
where
  "copy_entries copy h [] = Some ([], h)"
| "copy_entries copy h (x # xs) =
     (case copy h x of
        None \<Rightarrow> None
      | Some (y, h1) \<Rightarrow>
          (case copy_entries copy h1 xs of
             None \<Rightarrow> None
           | Some (ys, h2) \<Rightarrow> Some (y # ys, h2)))"

definition json_array_copy ::
  "('c heap \<Rightarrow> 'c variant \<Rightarrow> ('c variant \<times> 'c heap) option) \<Rightarrow> 'c variant list \<Rightarrow> 'c heap
   \<Rightarrow> ('c heap_obj \<times> 'c heap) option" where
  "json_array_copy copy elements h =
     (case copy_entries copy h elements of
        None \<Rightarrow> None
      | Some (elements', h') \<Rightarrow> Some (json_array elements', h'))"

definition json_object_copy ::
  "('c heap \<Rightarrow> 'c variant \<Rightarrow> ('c variant \<times> 'c heap) option) \<Rightarrow> ('c list \<times> 'c variant) list
   \<Rightarrow> 'c heap \<Rightarrow> ('c heap_obj \<times> 'c heap) option" where
  "json_object_copy copy members h =
     (case copy_entries
             (\<lambda>h1 member.
                case copy h1 (snd member) of
                  None \<Rightarrow> None
                | Some (value', h2) \<Rightarrow> Some ((fst member, value'), h2))
             h members of
        None \<Rightarrow> None
      | Some (members', h') \<Rightarrow> Some (json_object members', h'))"

text \<open>
  The copy constructor of \<open>serializable_any\<close>:
  \<open>impl_ = val.impl_ != nullptr ? val.impl_->clone(allocator_) : nullptr\<close>, where \<open>clone\<close>
  is \<open>create_instance<any_handle_impl<T>>(allocator, value_)\<close>.
\<close>

definition serializable_any_copy ::
  "addr option \<Rightarrow> 'c heap \<Rightarrow> ('c heap_obj \<times> 'c heap) option" where
  "serializable_any_copy impl h =
     (case impl of
        None \<Rightarrow> Some (serializable_any None, h)
      | Some q \<Rightarrow>
          (case lookup h q of
             Some (any_handle_impl val) \<Rightarrow>
               (case create_instance (\<lambda>h1. Some (any_handle_impl val, h1)) h of
                  None \<Rightarrow> None
                | Some (q', h') \<Rightarrow> Some (serializable_any (Some q'), h'))
           | _ \<Rightarrow> None))"

text \<open>\<open>init_variant(var)\<close>: the variant constructed as a copy of \<open>var\<close>, and the heap.\<close>

fun init_variant ::
  "layout \<Rightarrow> nat \<Rightarrow> 'c::zero heap \<Rightarrow> 'c variant \<Rightarrow> ('c variant \<times> 'c heap) option" where
  "init_variant lay 0 h var = None"
| "init_variant lay (Suc k) h null_value = Some (null_value, h)"
| "init_variant lay (Suc k) h empty_object_value = Some (empty_object_value, h)"
| "init_variant lay (Suc k) h (double_val d) = Some (double_val d, h)"
| "init_variant lay (Suc k) h (integer_val i) = Some (integer_val i, h)"
| "init_variant lay (Suc k) h (uinteger_val u) = Some (uinteger_val u, h)"
| "init_variant lay (Suc k) h (bool_val b) = Some (bool_val b, h)"
| "init_variant lay (Suc k) h (small_string_val len buf) =
     Some (small_string_val len (store_small_string (take len buf) len), h)"
| "init_variant lay (Suc k) h (string_val p) =
     (case lookup h p of
        Some (string_data s) \<Rightarrow>
          (case create_string_data lay s h of
             None \<Rightarrow> None
           | Some (q, h') \<Rightarrow> Some (string_val q, h'))
      | _ \<Rightarrow> None)"
| "init_variant lay (Suc k) h (array_val p) =
     (case lookup h p of
        Some (json_array elements) \<Rightarrow>
          (case create_instance (json_array_copy (\<lambda>h1 x. init_variant lay k h1 x) elements) h of
             None \<Rightarrow> None
           | Some (q, h') \<Rightarrow> Some (array_val q, h'))
      | _ \<Rightarrow> None)"
| "init_variant lay (Suc k) h (object_val p) =
     (case lookup h p of
        Some (json_object members) \<Rightarrow>
          (case create_instance (json_object_copy (\<lambda>h1 x. init_variant lay k h1 x) members) h of
             None \<Rightarrow> None
           | Some (q, h') \<Rightarrow> Some (object_val q, h'))
      | _ \<Rightarrow> None)"
| "init_variant lay (Suc k) h (any_val p) =
     (case lookup h p of
        Some (serializable_any impl) \<Rightarrow>
          (case create_instance (serializable_any_copy impl) h of
             None \<Rightarrow> None
           | Some (q, h') \<Rightarrow> Some (any_val q, h'))
      | _ \<Rightarrow> None)"



text \<open>Modelled from the spec: the destructor of a \<open>json_array\<close> or \<open>json_object\<close>
  (json_structures.hpp), which destroys the entries in order.\<close>

primrec destroy_entries ::
  "('c heap \<Rightarrow> 'x \<Rightarrow> 'c heap option) \<Rightarrow> 'c heap \<Rightarrow> 'x list \<Rightarrow> 'c heap option" where
  "destroy_entries destroy h [] = Some h"
| "destroy_entries destroy h (x # xs) =
     (case destroy h x of None \<Rightarrow> None | Some h1 \<Rightarrow> destroy_entries destroy h1 xs)"

text \<open>
  \<open>destroy_variant()\<close>; \<open>destroy_instance\<close> runs the destructor of the object (which
  destroys the entries of a container, and the \<open>impl_\<close> of a \<open>serializable_any\<close>) and
  then deallocates it.
\<close>

fun destroy_variant :: "nat \<Rightarrow> 'c heap \<Rightarrow> 'c variant \<Rightarrow> 'c heap option" where
  "destroy_variant 0 h var = None"
| "destroy_variant (Suc k) h (string_val p) =
     (case lookup h p of
        Some (string_data s) \<Rightarrow> Some (deallocate h p)
      | _ \<Rightarrow> None)"
| "destroy_variant (Suc k) h (array_val p) =
     (case lookup h p of
        Some (json_array elements) \<Rightarrow>
          (case destroy_entries (\<lambda>h1 x. destroy_variant k h1 x) h elements of
             None \<Rightarrow> None
           | Some h' \<Rightarrow> Some (deallocate h' p))
      | _ \<Rightarrow> None)"
| "destroy_variant (Suc k) h (object_val p) =
     (case lookup h p of
        Some (json_object members) \<Rightarrow>
          (case destroy_entries (\<lambda>h1 member. destroy_variant k h1 (snd member)) h members of
             None \<Rightarrow> None
           | Some h' \<Rightarrow> Some (deallocate h' p))
      | _ \<Rightarrow> None)"
| "destroy_variant (Suc k) h (any_val p) =
     (case lookup h p of
        Some (serializable_any impl) \<Rightarrow>
          (case impl of
             None \<Rightarrow> Some (deallocate h p)
           | Some q \<Rightarrow>
               (case lookup h q of
                  Some (any_handle_impl val) \<Rightarrow> Some (deallocate (deallocate h q) p)
                | _ \<Rightarrow> None))
      | _ \<Rightarrow> None)"
| "destroy_variant (Suc k) h var = Some h"

text \<open>Modelled from the spec: \<open>operator==\<close> of \<open>json_array\<close> and \<open>json_object\<close>
  (json_structures.hpp), entry by entry and stopping at the first difference.\<close>

fun entries_eq :: "('x \<Rightarrow> 'y \<Rightarrow> bool option) \<Rightarrow> 'x list \<Rightarrow> 'y list \<Rightarrow> bool option" where
  "entries_eq eq [] [] = Some True"
| "entries_eq eq (x # xs) (y # ys) =
     (case eq x y of
        None \<Rightarrow> None
      | Some b \<Rightarrow> if b then entries_eq eq xs ys else Some False)"
| "entries_eq eq xs ys = Some False"






subsection \<open>Values in a heap\<close>


fun footprint :: "nat \<Rightarrow> 'c heap \<Rightarrow> 'c variant \<Rightarrow> addr set" where
  "footprint 0 h v = {}"
| "footprint (Suc k) h (string_val p) = {p}"
| "footprint (Suc k) h (array_val p) =
     insert p (case lookup h p of
                 Some (json_array xs) \<Rightarrow> \<Union> (set (map (\<lambda>x. footprint k h x) xs))
               | _ \<Rightarrow> {})"
| "footprint (Suc k) h (object_val p) =
     insert p (case lookup h p of
                 Some (json_object ms) \<Rightarrow> \<Union> (set (map (\<lambda>x. footprint k h x) (map snd ms)))
               | _ \<Rightarrow> {})"
| "footprint (Suc k) h (any_val p) =
     insert p (case lookup h p of Some (serializable_any (Some q)) \<Rightarrow> {q} | _ \<Rightarrow> {})"
| "footprint (Suc k) h v = {}"





subsection \<open>Objects, members and the proxy\<close>

text \<open>
  A program state is the variant \<open>var_\<close> of one \<open>basic_json\<close> variable and the heap. A
  \<open>basic_json&\<close> refers to that variable or to the value of a member of a \<open>json_object\<close> on
  the heap. A call returns, throws, or does what C++ leaves undefined (it follows a
  pointer or an iterator to nothing).
\<close>

record 'c state =
  var :: "'c variant"
  heap :: "'c heap"

datatype place = this_json | member_value addr nat

datatype 'r result = Returns 'r | Throws exception | Undefined

definition reraise :: "'a result \<Rightarrow> 'b result" where
  "reraise r = (case r of Throws e \<Rightarrow> Throws e | _ \<Rightarrow> Undefined)"

definition get_place :: "'c state \<Rightarrow> place \<Rightarrow> 'c variant option" where
  "get_place st pl =
     (case pl of
        this_json \<Rightarrow> Some (var st)
      | member_value p i \<Rightarrow>
          (case lookup (heap st) p of
             Some (json_object ms) \<Rightarrow> if i < length ms then Some (snd (ms ! i)) else None
           | _ \<Rightarrow> None))"

definition put_place :: "'c state \<Rightarrow> place \<Rightarrow> 'c variant \<Rightarrow> 'c state" where
  "put_place st pl v =
     (case pl of
        this_json \<Rightarrow> st\<lparr>var := v\<rparr>
      | member_value p i \<Rightarrow>
          (case lookup (heap st) p of
             Some (json_object ms) \<Rightarrow>
               st\<lparr>heap := (heap st)[p := Some (json_object (ms[i := (fst (ms ! i), v)]))]\<rparr>
           | _ \<Rightarrow> st))"

text \<open>
  Modelled from the spec: the interface of \<open>json_object\<close> (json_structures.hpp is not among
  the sources), "ordered iteration, key lookup returning an end-sentinel on miss, hinted
  insertion". An iterator is an index into the members, \<open>end()\<close> is the size, and
  \<open>object_iterator(true)\<close> is the iterator of no object. \<open>find\<close> is the first member of
  the name, or \<open>end()\<close>. \<open>set(hint, name, value)\<close> gives the member of that name the value,
  or inserts a new member; where it inserts is the ordering policy of the container,
  which the spec leaves open: it is the parameter \<open>policy\<close>, from the name and the names
  present to an index.
\<close>

datatype object_iterator = null_iterator | member_iterator nat

definition json_object_find :: "('c list \<times> 'v) list \<Rightarrow> 'c list \<Rightarrow> object_iterator" where
  "json_object_find ms name = member_iterator (length (takeWhile (\<lambda>m. fst m \<noteq> name) ms))"

definition json_object_end :: "('c list \<times> 'v) list \<Rightarrow> object_iterator" where
  "json_object_end ms = member_iterator (length ms)"

definition json_object_set ::
  "('c list \<Rightarrow> 'c list list \<Rightarrow> nat) \<Rightarrow> ('c list \<times> 'v) list \<Rightarrow> object_iterator \<Rightarrow> 'c list \<Rightarrow> 'v
   \<Rightarrow> ('c list \<times> 'v) list \<times> object_iterator" where
  "json_object_set policy ms hint name val =
     (if json_object_find ms name = json_object_end ms then
        let i = min (policy name (map fst ms)) (length ms)
        in (take i ms @ [(name, val)] @ drop i ms, member_iterator i)
      else
        let i = length (takeWhile (\<lambda>m. fst m \<noteq> name) ms)
        in (ms[i := (name, val)], member_iterator i))"

text \<open>\<open>create_instance\<close> for an object whose constructor allocates nothing itself.\<close>

definition create_instance_of :: "'c heap_obj \<Rightarrow> 'c heap \<Rightarrow> addr \<times> 'c heap" where
  "create_instance_of obj h =
     (case allocate h of (storage, h1) \<Rightarrow> (storage, construct h1 storage obj))"

text \<open>\<open>variant(object&& val)\<close>, which is \<open>basic_json(object&& other)\<close>.\<close>

definition variant_object :: "('c list \<times> 'c variant) list \<Rightarrow> 'c heap \<Rightarrow> 'c variant \<times> 'c heap" where
  "variant_object val h =
     (case create_instance_of (json_object val) h of (p, h') \<Rightarrow> (object_val p, h'))"

text \<open>\<open>create_object_implicitly()\<close> on the \<open>basic_json\<close> at a place.\<close>

definition create_object_implicitly :: "'c state \<Rightarrow> place \<Rightarrow> 'c state" where
  "create_object_implicitly st pl =
     (case create_instance_of (json_object []) (heap st) of
        (p, h') \<Rightarrow> put_place (st\<lparr>heap := h'\<rparr>) pl (object_val p))"

text \<open>\<open>find(name)\<close>, \<open>members().begin()\<close>, \<open>members().end()\<close> and \<open>at(name)\<close>; none of them
  changes the state.\<close>

definition basic_json_find :: "'c state \<Rightarrow> place \<Rightarrow> 'c list \<Rightarrow> object_iterator result" where
  "basic_json_find st pl name =
     (case get_place st pl of
        None \<Rightarrow> Undefined
      | Some empty_object_value \<Rightarrow> Returns null_iterator
      | Some (object_val p) \<Rightarrow>
          (case lookup (heap st) p of
             Some (json_object ms) \<Rightarrow> Returns (json_object_find ms name)
           | _ \<Rightarrow> Undefined)
      | Some _ \<Rightarrow>
          Throws (runtime_error ''Attempting to get %s from a value that is not an object''))"

definition members_begin :: "'c state \<Rightarrow> place \<Rightarrow> object_iterator result" where
  "members_begin st pl =
     (case get_place st pl of
        None \<Rightarrow> Undefined
      | Some empty_object_value \<Rightarrow> Returns null_iterator
      | Some (object_val p) \<Rightarrow>
          (case lookup (heap st) p of
             Some (json_object ms) \<Rightarrow> Returns (member_iterator 0)
           | _ \<Rightarrow> Undefined)
      | Some _ \<Rightarrow> Throws (runtime_error ''Not an object''))"

definition members_end :: "'c state \<Rightarrow> place \<Rightarrow> object_iterator result" where
  "members_end st pl =
     (case get_place st pl of
        None \<Rightarrow> Undefined
      | Some empty_object_value \<Rightarrow> Returns null_iterator
      | Some (object_val p) \<Rightarrow>
          (case lookup (heap st) p of
             Some (json_object ms) \<Rightarrow> Returns (json_object_end ms)
           | _ \<Rightarrow> Undefined)
      | Some _ \<Rightarrow> Throws (runtime_error ''Not an object''))"

text \<open>\<open>it->value()\<close> for an iterator into the members of the object at a place.\<close>

definition iterator_value :: "'c state \<Rightarrow> place \<Rightarrow> object_iterator \<Rightarrow> place result" where
  "iterator_value st pl it =
     (case get_place st pl of
        Some (object_val p) \<Rightarrow>
          (case lookup (heap st) p of
             Some (json_object ms) \<Rightarrow>
               (case it of
                  member_iterator i \<Rightarrow> if i < length ms then Returns (member_value p i) else Undefined
                | null_iterator \<Rightarrow> Undefined)
           | _ \<Rightarrow> Undefined)
      | _ \<Rightarrow> Undefined)"

definition basic_json_at :: "'c state \<Rightarrow> place \<Rightarrow> 'c list \<Rightarrow> place result" where
  "basic_json_at st pl name =
     (case get_place st pl of
        None \<Rightarrow> Undefined
      | Some empty_object_value \<Rightarrow> Throws (out_of_range ''%s not found'')
      | Some (object_val p) \<Rightarrow>
          (case lookup (heap st) p of
             Some (json_object ms) \<Rightarrow>
               let it = json_object_find ms name
               in if it = json_object_end ms then Throws (out_of_range ''%s not found'')
                  else iterator_value st pl it
           | _ \<Rightarrow> Undefined)
      | Some _ \<Rightarrow>
          Throws (runtime_error ''Attempting to get %s from a value that is not an object''))"

text \<open>The non-const \<open>object_value()\<close>: the address of the \<open>json_object\<close>, and the state.\<close>

definition object_value :: "'c state \<Rightarrow> place \<Rightarrow> addr result \<times> 'c state" where
  "object_value st pl =
     (case get_place st pl of
        None \<Rightarrow> (Undefined, st)
      | Some empty_object_value \<Rightarrow>
          (let st' = create_object_implicitly st pl
           in case get_place st' pl of
                Some (object_val p) \<Rightarrow> (Returns p, st')
              | _ \<Rightarrow> (Undefined, st'))
      | Some (object_val p) \<Rightarrow> (Returns p, st)
      | Some _ \<Rightarrow> (Throws (runtime_error ''Bad object cast''), st))"

text \<open>\<open>set(hint, name, value)\<close> with a value that is moved in (lines 2575-2587).\<close>

definition basic_json_set ::
  "('c list \<Rightarrow> 'c list list \<Rightarrow> nat) \<Rightarrow> 'c state \<Rightarrow> place \<Rightarrow> object_iterator \<Rightarrow> 'c list
   \<Rightarrow> 'c variant \<Rightarrow> object_iterator result \<times> 'c state" where
  "basic_json_set policy st pl hint name val =
     (case get_place st pl of
        None \<Rightarrow> (Undefined, st)
      | Some v \<Rightarrow>
          if variant_type v = empty_object_t \<or> variant_type v = object_t then
            let st1 = (if variant_type v = empty_object_t then create_object_implicitly st pl
                       else st)
            in (case get_place st1 pl of
                  Some (object_val p) \<Rightarrow>
                    (case lookup (heap st1) p of
                       Some (json_object ms) \<Rightarrow>
                         (case json_object_set policy ms hint name val of
                            (ms', it) \<Rightarrow>
                              (Returns it, st1\<lparr>heap := (heap st1)[p := Some (json_object ms')]\<rparr>))
                     | _ \<Rightarrow> (Undefined, st1))
                | _ \<Rightarrow> (Undefined, st1))
          else
            (Throws (runtime_error ''Attempting to set %s on a value that is not an object''),
             st))"

text \<open>
  \<open>json_proxy<ParentT>\<close>: the parent, a \<open>basic_json\<close> or again a proxy, and the name.
  \<open>evaluate()\<close> is \<open>parent_.evaluate(name_)\<close>, which for either kind of parent is
  \<open>at(name_)\<close> on what the parent evaluates to.
\<close>

datatype 'c json_proxy = basic_json_ref place | json_proxy "'c json_proxy" "'c list"

primrec json_proxy_evaluate :: "'c state \<Rightarrow> 'c json_proxy \<Rightarrow> place result" where
  "json_proxy_evaluate st (basic_json_ref pl) = Returns pl"
| "json_proxy_evaluate st (json_proxy parent name) =
     (case json_proxy_evaluate st parent of
        Returns val \<Rightarrow> basic_json_at st val name
      | r \<Rightarrow> reraise r)"

text \<open>
  \<open>evaluate_with_default()\<close> (lines 979-988). The arguments of \<open>val.set\<close> are evaluated
  from left to right: \<open>val.members().begin()\<close>, then \<open>val.object_value()\<close> for the
  allocator, then the temporary \<open>basic_json\<close> made from the empty \<open>object\<close>.
\<close>

primrec json_proxy_evaluate_with_default ::
  "('c list \<Rightarrow> 'c list list \<Rightarrow> nat) \<Rightarrow> 'c state \<Rightarrow> 'c json_proxy \<Rightarrow> place result \<times> 'c state" where
  "json_proxy_evaluate_with_default policy st (basic_json_ref pl) = (Returns pl, st)"
| "json_proxy_evaluate_with_default policy st (json_proxy parent name) =
     (case json_proxy_evaluate_with_default policy st parent of
        (Returns val, st1) \<Rightarrow>
          (case basic_json_find st1 val name of
             Returns it \<Rightarrow>
               (case members_end st1 val of
                  Returns e \<Rightarrow>
                    if it = e then
                      (case members_begin st1 val of
                         Returns hint \<Rightarrow>
                           (case object_value st1 val of
                              (Returns obj, st2) \<Rightarrow>
                                (case variant_object [] (heap st2) of
                                   (tmp, h3) \<Rightarrow>
                                     (case basic_json_set policy (st2\<lparr>heap := h3\<rparr>) val hint name tmp of
                                        (Returns it', st4) \<Rightarrow> (iterator_value st4 val it', st4)
                                      | (r, st4) \<Rightarrow> (reraise r, st4)))
                            | (r, st2) \<Rightarrow> (reraise r, st2))
                       | r \<Rightarrow> (reraise r, st1))
                    else (iterator_value st1 val it, st1)
                | r \<Rightarrow> (reraise r, st1))
           | r \<Rightarrow> (reraise r, st1))
      | (r, st1) \<Rightarrow> (reraise r, st1))"

text \<open>The non-const \<open>basic_json::operator[](const string_type& name)\<close> (lines 1800-1813).\<close>

definition basic_json_subscript ::
  "'c state \<Rightarrow> place \<Rightarrow> 'c list \<Rightarrow> 'c json_proxy result \<times> 'c state" where
  "basic_json_subscript st pl name =
     (case get_place st pl of
        None \<Rightarrow> (Undefined, st)
      | Some empty_object_value \<Rightarrow>
          (Returns (json_proxy (basic_json_ref pl) name), create_object_implicitly st pl)
      | Some (object_val p) \<Rightarrow> (Returns (json_proxy (basic_json_ref pl) name), st)
      | Some _ \<Rightarrow> (Throws (runtime_error ''Not an object''), st))"

subsection \<open>Copy assignment\<close>

text \<open>
  \<open>operator=(const variant& val)\<close> works on \<open>*this\<close> where it is, and reads \<open>val\<close> while it
  does. Both are variants somewhere in the memory of the program: the variant of a
  \<open>basic_json\<close> variable, the value of a member of a \<open>json_object\<close> on the heap, or an
  element of a \<open>json_array\<close> on the heap. A \<open>store\<close> is the variables and the heap, and a
  \<open>location\<close> says where a variant is.
\<close>

record 'c store =
  variables :: "'c variant list"
  objects :: "'c heap"

datatype location = variable nat | member_of addr nat | element_of addr nat

definition get_location :: "'c store \<Rightarrow> location \<Rightarrow> 'c variant option" where
  "get_location st loc =
     (case loc of
        variable n \<Rightarrow> if n < length (variables st) then Some (variables st ! n) else None
      | member_of p i \<Rightarrow>
          (case lookup (objects st) p of
             Some (json_object ms) \<Rightarrow> if i < length ms then Some (snd (ms ! i)) else None
           | _ \<Rightarrow> None)
      | element_of p i \<Rightarrow>
          (case lookup (objects st) p of
             Some (json_array xs) \<Rightarrow> if i < length xs then Some (xs ! i) else None
           | _ \<Rightarrow> None))"

definition put_location :: "'c store \<Rightarrow> location \<Rightarrow> 'c variant \<Rightarrow> 'c store" where
  "put_location st loc v =
     (case loc of
        variable n \<Rightarrow> st\<lparr>variables := (variables st)[n := v]\<rparr>
      | member_of p i \<Rightarrow>
          (case lookup (objects st) p of
             Some (json_object ms) \<Rightarrow>
               st\<lparr>objects := (objects st)[p := Some (json_object (ms[i := (fst (ms ! i), v)]))]\<rparr>
           | _ \<Rightarrow> st)
      | element_of p i \<Rightarrow>
          (case lookup (objects st) p of
             Some (json_array xs) \<Rightarrow>
               st\<lparr>objects := (objects st)[p := Some (json_array (xs[i := v]))]\<rparr>
           | _ \<Rightarrow> st))"


text \<open>
  The result of the assignment is the store afterwards, \<open>None\<close> when the call does what
  C++ leaves undefined.

  The first statement of \<open>init_variant(var)\<close> is \<open>type_ = var.type_\<close>; the payload of
  \<open>var\<close> is read after it. In between the variant at \<open>this\<close> has the new tag over the
  bytes of the union member it had. For the four pointer tags \<open>set_type\<close> gives that
  variant: its pointer member is the old pointer where the old member was a pointer, and
  otherwise what the platform makes of the bytes of the old member, the parameter
  \<open>bits\<close>. For the other tags the member is written by the next statement and nothing
  reads the variant in between, so \<open>set_type\<close> leaves the variant as it was.
\<close>

definition pointer_bits :: "('c variant \<Rightarrow> addr) \<Rightarrow> 'c variant \<Rightarrow> addr" where
  "pointer_bits bits t =
     (case t of
        string_val p \<Rightarrow> p
      | object_val p \<Rightarrow> p
      | array_val p \<Rightarrow> p
      | any_val p \<Rightarrow> p
      | _ \<Rightarrow> bits t)"

definition set_type :: "('c variant \<Rightarrow> addr) \<Rightarrow> value_types_t \<Rightarrow> 'c variant \<Rightarrow> 'c variant" where
  "set_type bits ty t =
     (if ty = variant_type t then t
      else
        (case ty of
           string_t \<Rightarrow> string_val (pointer_bits bits t)
         | object_t \<Rightarrow> object_val (pointer_bits bits t)
         | array_t \<Rightarrow> array_val (pointer_bits bits t)
         | any_t \<Rightarrow> any_val (pointer_bits bits t)
         | _ \<Rightarrow> t))"

text \<open>\<open>init_variant(var)\<close> called on the variant at \<open>this\<close>, with \<open>var\<close> at the place
  \<open>var'\<close>: the tag, then the copy of what \<open>var\<close> holds then, then the payload.\<close>

definition init_variant_at ::
  "('c variant \<Rightarrow> addr) \<Rightarrow> layout \<Rightarrow> nat \<Rightarrow> 'c::zero store \<Rightarrow> location \<Rightarrow> location \<Rightarrow> 'c store option" where
  "init_variant_at bits lay k st this var' =
     (case get_location st var' of
        None \<Rightarrow> None
      | Some v \<Rightarrow>
          (case get_location st this of
             None \<Rightarrow> None
           | Some t \<Rightarrow>
               let st1 = put_location st this (set_type bits (variant_type v) t)
               in (case get_location st1 var' of
                     None \<Rightarrow> None
                   | Some v1 \<Rightarrow>
                       (case init_variant lay k (objects st1) v1 of
                          None \<Rightarrow> None
                        | Some (w, h') \<Rightarrow> Some (put_location (st1\<lparr>objects := h'\<rparr>) this w)))))"

text \<open>\<open>variant::operator=(const variant& val)\<close> (lines 641-665), with its guard
  \<open>this != &val\<close>, and \<open>basic_json::operator=(const basic_json& rhs)\<close>, which is
  \<open>var_ = rhs.var_\<close>.\<close>

definition variant_assign ::
  "('c variant \<Rightarrow> addr) \<Rightarrow> layout \<Rightarrow> nat \<Rightarrow> 'c::zero store \<Rightarrow> location \<Rightarrow> location \<Rightarrow> 'c store option" where
  "variant_assign bits lay k st this val =
     (if this \<noteq> val then
        (case get_location st this of
           None \<Rightarrow> None
         | Some t \<Rightarrow>
             if is_simple (variant_type t) then
               (case get_location st val of
                  None \<Rightarrow> None
                | Some v \<Rightarrow>
                    if is_simple (variant_type v) then Some (put_location st this v)
                    else init_variant_at bits lay k st this val)
             else
               (case destroy_variant k (objects st) t of
                  None \<Rightarrow> None
                | Some h1 \<Rightarrow> init_variant_at bits lay k (st\<lparr>objects := h1\<rparr>) this val))
      else Some st)"

definition basic_json_assign ::
  "('c variant \<Rightarrow> addr) \<Rightarrow> layout \<Rightarrow> nat \<Rightarrow> 'c::zero store \<Rightarrow> location \<Rightarrow> location \<Rightarrow> 'c store option" where
  "basic_json_assign bits lay k st this rhs = variant_assign bits lay k st this rhs"

chapter \<open>Properties\<close>

section \<open>Sources\<close>

subsection \<open>What read writes\<close>

lemma string_source_read_within:
  "string_source_read s p n = (len, s', p') \<Longrightarrow> n \<le> i \<Longrightarrow> p' i = p i"
  by (auto simp: string_source_read_def Let_def memcpy_def split: if_splits)

lemma bytes_source_read_within:
  "bytes_source_read s p n = (len, s', p') \<Longrightarrow> n \<le> i \<Longrightarrow> p' i = p i"
  by (auto simp: bytes_source_read_def Let_def memcpy_def split: if_splits)

lemma copy_loop_within:
  "copy_loop cast cur p k n = (k', cur', p') \<Longrightarrow> k + n \<le> i \<Longrightarrow> p' i = p i"
  by (induction cast cur p k n rule: copy_loop.induct) (auto split: list.splits)

lemma copy_loop_count:
  "copy_loop cast cur p k n = (k', cur', p') \<Longrightarrow>
   k' = k + min n (length cur) \<and> cur' = drop (min n (length cur)) cur"
  by (induction cast cur p k n rule: copy_loop.induct) (auto split: list.splits)

lemma iterator_source_read_within:
  "iterator_source_read s p n = (len, s', p') \<Longrightarrow> n \<le> i \<Longrightarrow> p' i = p i"
  by (auto simp: iterator_source_read_def split: prod.splits dest: copy_loop_within)

lemma iterator_source_read_random_access_within:
  "iterator_source_read_random_access s p n = (len, s', p') \<Longrightarrow> n \<le> i \<Longrightarrow> p' i = p i"
  by (auto simp: iterator_source_read_random_access_def split: prod.splits dest: copy_loop_within)

lemma binary_iterator_source_read_random_access_within:
  "binary_iterator_source_read_random_access cast s p n = (len, s', p') \<Longrightarrow> n \<le> i
   \<Longrightarrow> p' i = p i"
  by (auto simp: binary_iterator_source_read_random_access_def split: prod.splits
           dest: copy_loop_within)

lemma memcpy_bytes_within:
  assumes "length xs \<le> len" and "off + len \<le> i"
  shows "memcpy_bytes sz overlay p off xs len i = p i"
proof -
  have le: "len div sz \<le> len" by (rule div_le_dividend)
  have less: "len div sz < len" if r: "len mod sz > 0"
  proof (cases "1 < sz")
    case True
    moreover have "0 < len" using r by (cases "len = 0") auto
    ultimately show ?thesis by (rule div_less_dividend)
  next
    case False
    then have "sz = 0 \<or> sz = 1" by auto
    then show ?thesis using r by auto
  qed
  show ?thesis using assms le less
    by (auto simp: memcpy_bytes_def Let_def memcpy_def)
qed

lemma stream_source_read_within:
  assumes "stream_source_read sz overlay s p n = (len, s', p')" and "n \<le> i"
  shows "p' i = p i"
proof -
  have a: "memcpy_bytes sz overlay q off (buffered t m) m i = q i" if "off + m \<le> n" for q off t m
    using that assms(2) by (intro memcpy_bytes_within) (auto simp: buffered_def)
  show ?thesis
    using assms
    by (auto simp: stream_source_read_def Let_def memcpy_def sgetn_def a
             split: if_splits prod.splits sum.splits)
qed

text \<open>
  C8 (every \<open>read(buffer, n)\<close> writes at most \<open>n\<close> units). The slice, stream and
  element-wise iterator reads leave every cell from \<open>n\<close> on as it was (the lemmas above).
  The overloads for iterators that are not random access copy the whole of
  \<open>[current_, end_)\<close>: on a source over the three units 1, 2, 3 and an empty memory,
  \<open>read(data, 1)\<close> returns 1 and has stored 2 in \<open>data[1]\<close> and 3 in \<open>data[2]\<close>.
\<close>

theorem read_not_random_access_writes_past_length:
  "iterator_source_read_not_random_access (iterator_source_init [1, 2, 3 :: 8 word]) (\<lambda>i. None) 1
     = (1, \<lparr>iter_range = [2, 3], iter_position = 1\<rparr>, [0 \<mapsto> 1, 1 \<mapsto> 2, 2 \<mapsto> 3])
   \<and> binary_iterator_source_read_not_random_access ucast
         (iterator_source_init [1, 2, 3 :: 32 word]) (\<lambda>i. None) 1
     = (1, \<lparr>iter_range = [2, 3], iter_position = 1\<rparr>, [0 \<mapsto> 1, 1 \<mapsto> 2, 2 \<mapsto> 3])"
  by (auto simp: iterator_source_read_not_random_access_def iterator_source_init_def
        binary_iterator_source_read_not_random_access_def memcpy_def fun_eq_iff)

subsection \<open>position\<close>

text \<open>
  C9 (\<open>position()\<close> is the number of units consumed, 0 after construction). The stream
  and iterator sources start at 0; \<open>string_source\<close> and \<open>bytes_source\<close> start at 1, and
  after \<open>k\<close> units were read from a source over at least \<open>k\<close> single-size units their
  \<open>position()\<close> is \<open>k + 1\<close>.
\<close>

theorem slice_source_position_starts_at_one:
  "string_source_position 1 (string_source_init s) = 1
   \<and> bytes_source_position (bytes_source_init b) = 1
   \<and> iterator_source_position (iterator_source_init xs) = 0
   \<and> stream_source_position (stream_source_init is buf_size) = 0
   \<and> string_source_position 1 (fst (snd (string_source_read (string_source_init (u # us)) p 1)))
       = 2"
  by (simp add: string_source_position_def string_source_init_def bytes_source_position_def
        bytes_source_init_def iterator_source_position_def iterator_source_init_def
        stream_source_position_def stream_source_init_def string_source_read_def)

subsection \<open>source_reader::read on a slice source\<close>

lemma length_remaining:
  "string_source_valid s \<Longrightarrow> length (remaining s) = end_ptr s - current_ptr s"
  by (auto simp: remaining_def string_source_valid_def)

lemma vector_commit_memcpy:
  "length xs \<le> n \<Longrightarrow>
   vector_commit (v @ replicate n 0) (length v)
     (memcpy (vector_region (v @ replicate n 0) (length v)) 0 xs)
   = v @ xs @ replicate (n - length xs) 0"
  by (rule nth_equalityI)
     (auto simp: vector_commit_def memcpy_def vector_region_def nth_append)

lemma string_source_read_eq:
  "string_source_valid s \<Longrightarrow>
   string_source_read s p n =
     (min n (end_ptr s - current_ptr s),
      s\<lparr>current_ptr := current_ptr s + min n (end_ptr s - current_ptr s)\<rparr>,
      memcpy p 0 (take n (remaining s)))"
  by (auto simp: string_source_read_def remaining_def Let_def min_def string_source_valid_def
        take_drop)

lemma string_source_valid_advance:
  "string_source_valid s \<Longrightarrow> k \<le> end_ptr s - current_ptr s
   \<Longrightarrow> string_source_valid (s\<lparr>current_ptr := current_ptr s + k\<rparr>)"
  by (auto simp: string_source_valid_def)

lemma remaining_advance:
  "string_source_valid s \<Longrightarrow> k \<le> end_ptr s - current_ptr s \<Longrightarrow>
   remaining (s\<lparr>current_ptr := current_ptr s + k\<rparr>) = drop k (remaining s)"
  by (auto simp: remaining_def string_source_valid_def drop_take add.commute)

lemma loop_string_source:
  "string_source_valid s \<Longrightarrow> R = end_ptr s - current_ptr s \<Longrightarrow>
   source_reader_loop string_source_eof string_source_read s v unread (min max_buffer_length unread)
   = Some (s\<lparr>current_ptr := current_ptr s + min unread R\<rparr>,
           v @ take unread (remaining s) @ replicate (padding unread R) 0,
           unread - min unread R)"
proof (induction R arbitrary: s v unread rule: less_induct)
  case (less R)
  let ?n = "min max_buffer_length unread"
  have M: "0 < max_buffer_length" by (simp add: max_buffer_length_def)
  show ?case
  proof (cases "?n > 0 \<and> \<not> string_source_eof s")
    case False
    then have "unread = 0 \<or> R = 0"
      using less.prems M by (auto simp: string_source_eof_def string_source_valid_def min_def split: if_splits)
    then show ?thesis
      using False less.prems length_remaining[OF less.prems(1)]
      by (subst source_reader_loop.simps) (auto simp: padding_def)
  next
    case True
    then have n0: "0 < ?n" and R0: "0 < R"
      using less.prems by (auto simp: string_source_eof_def string_source_valid_def)
    have u0: "0 < unread" using n0 by simp
    let ?a = "min ?n R"
    let ?s' = "s\<lparr>current_ptr := current_ptr s + ?a\<rparr>"
    have rd: "string_source_read s p ?n = (?a, ?s', memcpy p 0 (take ?n (remaining s)))" for p
      using string_source_read_eq[OF less.prems(1)] less.prems(2) by simp
    have lr: "length (remaining s) = R" using length_remaining less.prems by simp
    have vc: "vector_commit (v @ replicate ?n 0) (length v)
          (memcpy (vector_region (v @ replicate ?n 0) (length v)) 0 (take ?n (remaining s)))
          = v @ take ?n (remaining s) @ replicate (?n - ?a) 0"
    proof -
      have "length (take ?n (remaining s)) \<le> ?n" by (simp add: min_def)
      from vector_commit_memcpy[OF this, of v] show ?thesis using lr by (simp add: min.commute)
    qed
    have wf': "string_source_valid ?s'" using string_source_valid_advance[OF less.prems(1), of ?a] less.prems(2) by simp
    have R': "end_ptr ?s' - current_ptr ?s' = R - ?a" using less.prems by simp
    have rem': "remaining ?s' = drop ?a (remaining s)"
      using remaining_advance[OF less.prems(1), of ?a] less.prems(2) by simp
    have step: "source_reader_loop string_source_eof string_source_read s v unread ?n
       = source_reader_loop string_source_eof string_source_read ?s'
           (v @ take ?n (remaining s) @ replicate (?n - ?a) 0) (unread - ?a)
           (min max_buffer_length (unread - ?a))"
      using True by (subst source_reader_loop.simps) (simp add: rd vc Let_def)
    have IH: "source_reader_loop string_source_eof string_source_read ?s'
           (v @ take ?n (remaining s) @ replicate (?n - ?a) 0) (unread - ?a)
           (min max_buffer_length (unread - ?a))
        = Some (?s'\<lparr>current_ptr := current_ptr ?s' + min (unread - ?a) (R - ?a)\<rparr>,
            (v @ take ?n (remaining s) @ replicate (?n - ?a) 0)
              @ take (unread - ?a) (remaining ?s') @ replicate (padding (unread - ?a) (R - ?a)) 0,
            (unread - ?a) - min (unread - ?a) (R - ?a))"
      using less.IH[of "R - ?a" ?s', OF _ wf' R'[symmetric]] n0 R0 by simp
    show ?thesis
    proof (cases "R < ?n")
      case True
      then have a: "?a = R" by simp
      have Ru: "R < unread" using True by simp
      have Rm: "R mod max_buffer_length = R" using True by simp
      have p1: "padding unread R = ?n - R"
        using True R0 Rm Ru by (auto simp: padding_def)
      have p2: "padding (unread - R) 0 = 0" by (simp add: padding_def)
      have t1: "take ?n (remaining s) = remaining s" and t2: "take unread (remaining s) = remaining s"
        using True lr by auto
      have m1: "min unread R = R" using Ru by simp
      have "source_reader_loop string_source_eof string_source_read s v unread ?n
        = Some (s\<lparr>current_ptr := current_ptr s + R\<rparr>,
            v @ remaining s @ replicate (?n - R) 0, unread - R)"
        unfolding step IH using a t1 rem' lr p2 by simp
      then show ?thesis unfolding p1 t2 m1 .
    next
      case False
      then have nR: "?n \<le> R" by linarith
      then have a: "?a = ?n" by (rule min_absorb1)
      have nu: "?n \<le> unread" by simp
      have pad: "padding (unread - ?n) (R - ?n) = padding unread R"
      proof (cases "unread \<le> max_buffer_length")
        case True
        then have "?n = unread" by simp
        then show ?thesis using False by (simp add: padding_def)
      next
        case f: False
        then have n: "?n = max_buffer_length" by simp
        have RM: "max_buffer_length \<le> R" using False n by simp
        have m: "(R - max_buffer_length) mod max_buffer_length = R mod max_buffer_length"
          using RM by (simp add: le_mod_geq)
        have "R mod max_buffer_length \<le> R - max_buffer_length"
          by (metis m mod_less_eq_dividend)
        then show ?thesis using f RM m n
          by (auto simp: padding_def)
      qed
      have tk: "take ?n (remaining s) @ take (unread - ?n) (drop ?n (remaining s)) = take unread (remaining s)"
        by (metis le_add_diff_inverse min.cobounded2 take_add)
      have m1: "?n + min (unread - ?n) (R - ?n) = min unread R" using nR nu by linarith
      have m2: "unread - ?n - min (unread - ?n) (R - ?n) = unread - min unread R"
        using nR nu by linarith
      have "source_reader_loop string_source_eof string_source_read s v unread ?n
        = Some (s\<lparr>current_ptr := current_ptr s + (?n + min (unread - ?n) (R - ?n))\<rparr>,
            v @ (take ?n (remaining s) @ take (unread - ?n) (drop ?n (remaining s)))
              @ replicate (padding (unread - ?n) (R - ?n)) 0,
            unread - ?n - min (unread - ?n) (R - ?n))"
        unfolding step IH using a rem' by (simp add: add.assoc)
      then show ?thesis unfolding pad tk m1 m2 .
    qed
  qed
qed

text \<open>
  C10 (the contiguous fast path of \<open>source_reader::read\<close> grows \<open>v\<close> by the whole chunk
  before the chunk is read, and keeps the elements the source did not fill). On a slice
  source holding \<open>R\<close> units, \<open>read(source, v, len)\<close> returns \<open>min len R\<close> and leaves in
  \<open>v\<close> its old elements, the units transferred and \<open>padding len R\<close> value-initialised
  elements; the padding is not empty when the source ends inside a chunk, so the final
  size exceeds the initial size plus the returned count.
\<close>

theorem source_reader_read_keeps_chunk_padding:
  assumes "string_source_valid s" and "R = end_ptr s - current_ptr s"
  shows "\<exists>v'. source_reader_read string_source_eof string_source_read s v len
           = Some (min len R, s\<lparr>current_ptr := current_ptr s + min len R\<rparr>, v')
         \<and> v' = v @ take len (remaining s) @ replicate (padding len R) 0
         \<and> length v' = length v + min len R + padding len R
         \<and> (R < len \<and> R mod max_buffer_length \<noteq> 0 \<longrightarrow> 0 < padding len R)"
proof -
  have lr: "length (remaining s) = R" using assms length_remaining by simp
  have m: "len - (len - min len R) = min len R" by simp
  have pos: "0 < padding len R" if "R < len" "R mod max_buffer_length \<noteq> 0"
  proof -
    have "R mod max_buffer_length < max_buffer_length"
      by (simp add: max_buffer_length_def)
    moreover have "R mod max_buffer_length \<le> R" by simp
    ultimately show ?thesis using that by (auto simp: padding_def)
  qed
  show ?thesis
    unfolding source_reader_read_def loop_string_source[OF assms]
    using lr pos by (simp add: m min.commute)
qed

theorem source_reader_read_keeps_chunk_padding_witness:
  "source_reader_read string_source_eof string_source_read
     (string_source_init [1, 2, 3 :: 8 word]) [9] 10
   = Some (3, \<lparr>units = [1, 2, 3], data_ptr = 0, current_ptr = 3, end_ptr = 3\<rparr>,
           [9, 1, 2, 3] @ replicate 7 0)"
  using source_reader_read_keeps_chunk_padding
          [of "string_source_init [1, 2, 3 :: 8 word]" 3 "[9]" 10]
  by (simp add: string_source_valid_def string_source_init_def remaining_def padding_def
        max_buffer_length_def)

section \<open>The value variant\<close>

subsection \<open>The heap\<close>

lemma lookup_append: "p < length h \<Longrightarrow> lookup (h @ xs) p = lookup h p"
  by (simp add: lookup_def nth_append)

lemma lookup_update: "lookup (h[a := x]) p = (if p = a \<and> a < length h then x else lookup h p)"
  by (simp add: lookup_def)







subsection \<open>Equality depends on the payloads only\<close>


lemma entries_eq_all2:
  "list_all2 (\<lambda>x y. eq x y = Some True) xs ys \<Longrightarrow> entries_eq eq xs ys = Some True"
  by (induction xs ys rule: list_all2_induct) auto







subsection \<open>Copies\<close>









subsection \<open>Destruction\<close>





subsection \<open>Construction and the small-string threshold\<close>

text \<open>
  C2 (a default-constructed value has the Null tag). Amended: \<open>variant()\<close> sets the tag
  \<open>empty_object_t\<close>, so a default-constructed value is an empty object, for which
  \<open>is_object()\<close> holds and \<open>is_null()\<close> does not; the Null tag comes from
  \<open>variant(null_type)\<close>.
\<close>

theorem default_constructed_is_empty_object:
  "variant_type (basic_json_default :: 'c variant) = empty_object_t
   \<and> is_object (basic_json_default :: 'c variant)
   \<and> \<not> is_null (basic_json_default :: 'c variant)
   \<and> is_null (variant_null :: 'c variant)"
  by (simp add: basic_json_default_def variant_default_def is_object_def is_null_def
        variant_null_def)

text \<open>The claim C2 as stated fails: \<open>is_null()\<close> is false on \<open>basic_json()\<close>.\<close>

theorem default_constructed_is_not_null:
  "\<not> is_null (basic_json_default :: 8 word variant)"
  by (simp add: basic_json_default_def variant_default_def is_null_def)

lemma small_string_capacity_le:
  assumes "0 < sz" and "sz \<le> 8"
  shows "small_string_capacity sz = 8 div sz - 1" and "small_string_capacity sz \<le> 7"
proof -
  have p: "0 < 8 div sz" using assms by (simp add: div_greater_zero_iff)
  have q: "8 div sz \<le> 8" by (rule div_le_dividend)
  have "8 div sz + 2 ^ 64 - 1 = (8 div sz - 1) + 2 ^ 64" using p by simp
  then have "(8 div sz + 2 ^ 64 - 1) mod 2 ^ 64 = (8 div sz - 1) mod 2 ^ 64"
    by (simp only: mod_add_self2)
  also have "\<dots> = 8 div sz - 1"
  proof (rule mod_less)
    have "8 div sz - 1 \<le> 8" using q by linarith
    also have "(8::nat) < 2 ^ 64" by simp
    finally show "8 div sz - 1 < 2 ^ 64" .
  qed
  finally have "(8 div sz + 2 ^ 64 - 1) mod 2 ^ 64 = 8 div sz - 1" .
  then show c: "small_string_capacity sz = 8 div sz - 1"
    by (simp add: small_string_capacity_def)
  show "small_string_capacity sz \<le> 7" using c q by linarith
qed

text \<open>
  The boundary for a character type of 1 to 8 bytes: the threshold is
  \<open>8 / sizeof(char_type) - 1\<close>; a string of exactly that length is stored inline, with
  the heap unchanged, and \<open>as_string()\<close> returns its characters; a string one unit longer
  goes to \<open>create_string_data\<close>, which returns a new \<open>string_data\<close> with these characters
  when they fit the block it allocates.
\<close>

lemma small_string_boundary_within_block:
  assumes "0 < sizeof_char_type lay" and "sizeof_char_type lay \<le> 8"
  shows "small_string_capacity (sizeof_char_type lay) = 8 div sizeof_char_type lay - 1
       \<and> (length s = small_string_capacity (sizeof_char_type lay) \<longrightarrow>
            variant_string lay s h = Some (small_string_val (length s) (s @ [0]), h)
            \<and> as_string to_string h (small_string_val (length s) (s @ [0])) = Some s)
       \<and> (length t = small_string_capacity (sizeof_char_type lay) + 1 \<longrightarrow>
            variant_string lay t h
              = (if within_block lay (length t)
                 then Some (string_val (length h), h @ [Some (string_data t)])
                 else None)
            \<and> as_string to_string (h @ [Some (string_data t)]) (string_val (length h)) = Some t)"
  using small_string_capacity_le[OF assms]
  by (auto simp: variant_string_def store_small_string_def as_string_def Let_def
        create_string_data_def allocate_def construct_def lookup_def)

text \<open>
  C7 (the small-string boundary). For single-byte characters the boundary is as the
  claim has it: 7 characters are stored inline and 8 in a heap string, and \<open>as_string()\<close>
  returns them. For a character type of 4 bytes the threshold is 1 and a string of one
  unit is stored inline; for the string of 2 units \<open>create_string_data\<close> allocates
  \<open>sizeof(storage_type) + 2*sizeof(char)\<close>, 26 bytes, and writes the 3 units of 4 bytes
  from offset 16 on, up to byte 28: behind the block. For a character type of 8 bytes
  the threshold is 0, and the string of one unit has 25 bytes for the 16 it writes from
  offset 16 on. \<open>destroy_string_data\<close> computes the size with \<open>sizeof(char_type)\<close>.
\<close>

theorem small_string_boundary_overrun:
  "small_string_capacity (sizeof_char_type (lp64 4)) = 1
   \<and> variant_string (lp64 4) [97 :: 32 word] [] = Some (small_string_val 1 [97, 0], [])
   \<and> \<not> within_block (lp64 4) 2
   \<and> variant_string (lp64 4) [97, 98 :: 32 word] [] = None
   \<and> small_string_capacity (sizeof_char_type (lp64 8)) = 0
   \<and> \<not> within_block (lp64 8) 1
   \<and> variant_string (lp64 8) [97 :: 64 word] [] = None
   \<and> small_string_capacity (sizeof_char_type (lp64 1)) = 7
   \<and> variant_string (lp64 1) [97, 98, 99, 100, 101, 102, 103 :: 8 word] []
       = Some (small_string_val 7 [97, 98, 99, 100, 101, 102, 103, 0], [])
   \<and> within_block (lp64 1) 8
   \<and> variant_string (lp64 1) [97, 98, 99, 100, 101, 102, 103, 104 :: 8 word] []
       = Some (string_val 0, [Some (string_data [97, 98, 99, 100, 101, 102, 103, 104])])
   \<and> as_string (\<lambda>h v. []) [Some (string_data [97, 98, 99, 100, 101, 102, 103, 104 :: 8 word])]
        (string_val 0) = Some [97, 98, 99, 100, 101, 102, 103, 104]"
proof -
  have c: "small_string_capacity 4 = 1" "small_string_capacity 8 = 0"
    "small_string_capacity 1 = 7" "small_string_capacity (Suc 0) = 7"
    by (simp_all add: small_string_capacity_def)
  show ?thesis
    by (simp add: c lp64_def variant_string_def create_string_data_def allocate_def construct_def
          within_block_def aligned_size_def store_small_string_def as_string_def lookup_def)
qed

subsection \<open>Numeric accessors\<close>

text \<open>
  C5 (every numeric accessor fails with TypeMismatch on Null). Amended: on a Null value
  \<open>as_integer\<close> and \<open>as_uinteger\<close> throw \<open>std::runtime_error\<close>; \<open>as_double\<close> has a case for
  \<open>null_t\<close> and returns the quiet NaN.
\<close>

theorem numeric_accessors_on_null:
  "as_integer cv (null_value :: 'c variant) = Inl (runtime_error ''Not an integer'')
   \<and> as_uinteger cv (null_value :: 'c variant) = Inl (runtime_error ''Not an unsigned integer'')
   \<and> as_double cv (null_value :: 'c variant) = Inr quiet_NaN"
  by (simp add: as_integer_def as_uinteger_def as_double_def)

text \<open>The claim C5 as stated fails: with no conversions whatever does \<open>as_double\<close> throw
  on Null.\<close>

theorem as_double_on_null_does_not_fail:
  "\<not> (\<exists>cv e. as_double cv (null_value :: 8 word variant) = Inl e)"
  by (simp add: as_double_def)

subsection \<open>Move\<close>

text \<open>
  C1 (a moved-from value is Null, holds no allocation and is safe to destroy or to
  assign to). Amended: after the move construction \<open>w(move(v))\<close> the source \<open>v\<close> is
  Null and owns no heap object, destroying it leaves the heap as it is and assigning to
  it releases nothing (the copy assignment to the location that holds it stores a simple
  value as it is and otherwise is \<open>init_variant\<close> alone); the move assignment
  \<open>w = move(v)\<close> swaps the two values, so afterwards \<open>v\<close> holds what \<open>w\<close> held, and
  \<open>v.is_null()\<close> holds exactly when \<open>w\<close> was Null before.
\<close>

theorem move_swaps:
  "basic_json_move v = (v, null_value)
   \<and> is_null (snd (basic_json_move v))
   \<and> footprint k h (snd (basic_json_move v)) = {}
   \<and> destroy_variant (Suc k) h (snd (basic_json_move v)) = Some h
   \<and> (\<forall>st this val x.
         get_location st this = Some (snd (basic_json_move (v :: 'c::zero variant)))
         \<and> get_location st val = Some x \<and> this \<noteq> val \<longrightarrow>
         basic_json_assign bits lay n st this val
           = (if is_simple (variant_type x) then Some (put_location st this x)
              else init_variant_at bits lay n st this val))
   \<and> basic_json_move_assign w v = (v, w)
   \<and> is_null (snd (basic_json_move_assign w v)) = is_null w"
  by (cases k)
     (simp_all add: basic_json_move_def variant_move_def variant_swap_def is_null_def
        basic_json_move_assign_def variant_move_assign_def basic_json_assign_def
        variant_assign_def is_simple_def)

theorem move_swaps_witness:
  "get_location \<lparr>variables = [null_value, integer_val 7 :: 8 word variant], objects = []\<rparr>
      (variable 0) = Some (snd (basic_json_move (integer_val 5)))
   \<and> get_location \<lparr>variables = [null_value, integer_val 7 :: 8 word variant], objects = []\<rparr>
      (variable 1) = Some (integer_val 7)
   \<and> variable 0 \<noteq> variable 1
   \<and> basic_json_assign (\<lambda>t. 0) (lp64 1) (Suc 0)
        \<lparr>variables = [null_value, integer_val 7 :: 8 word variant], objects = []\<rparr>
        (variable 0) (variable 1)
      = Some \<lparr>variables = [integer_val 7, integer_val 7], objects = []\<rparr>"
proof -
  let ?st = "\<lparr>variables = [null_value, integer_val 7 :: 8 word variant], objects = []\<rparr>"
  have hyp: "get_location ?st (variable 0) = Some (snd (basic_json_move (integer_val 5)))
     \<and> get_location ?st (variable 1) = Some (integer_val 7) \<and> variable 0 \<noteq> variable 1"
    by (simp add: get_location_def basic_json_move_def variant_move_def variant_swap_def)
  note t = move_swaps[of "integer_val 5 :: 8 word variant" 0 "[]" "\<lambda>t. 0" "lp64 1" "Suc 0"
      null_value]
  from t[THEN conjunct2, THEN conjunct2, THEN conjunct2, THEN conjunct2, THEN conjunct1,
         rule_format, OF hyp] hyp
  show ?thesis by (simp add: is_simple_def put_location_def)
qed

text \<open>The claim C1 as stated fails for the move assignment: assigning the integer 5 to a
  heap string by move leaves the source holding the heap string.\<close>

theorem move_assignment_source_not_null:
  "basic_json_move_assign (string_val 0) (integer_val 5 :: 8 word variant)
     = (integer_val 5, string_val 0)
   \<and> \<not> is_null (snd (basic_json_move_assign (string_val 0) (integer_val 5 :: 8 word variant)))
   \<and> footprint (Suc 0) [Some (string_data [1, 2, 3, 4, 5, 6, 7, 8])]
        (snd (basic_json_move_assign (string_val 0) (integer_val 5 :: 8 word variant))) = {0}"
  by (simp add: basic_json_move_assign_def variant_move_assign_def variant_swap_def is_null_def)

subsection \<open>The proxy\<close>

lemma json_object_find_absent:
  "name \<notin> fst ` set ms \<Longrightarrow> json_object_find ms name = json_object_end ms"
proof -
  assume "name \<notin> fst ` set ms"
  then have "\<forall>m\<in>set ms. fst m \<noteq> name" by auto
  then have tw: "takeWhile (\<lambda>m. fst m \<noteq> name) ms = ms"
    by (rule takeWhile_eq_all_conv[THEN iffD2])
  show ?thesis unfolding json_object_find_def json_object_end_def tw by (rule refl)
qed

lemma get_place_heap_append:
  "get_place st pl = Some v \<Longrightarrow> get_place (st\<lparr>heap := heap st @ xs\<rparr>) pl = Some v"
  by (cases pl) (auto simp: get_place_def lookup_def nth_append split: option.splits heap_obj.splits if_splits)

text \<open>
  C3 (the entry a write-style access inserts for an absent name is Null). Amended: when
  \<open>evaluate_with_default()\<close> reaches the proxy \<open>parent[name]\<close>, the parent has evaluated
  to an object that has no member \<open>name\<close> (and is not a member of itself), the entry
  inserted for \<open>name\<close> is a new empty object: a value with the tag \<open>object_t\<close> whose
  \<open>json_object\<close>, newly allocated, has no members. It is inserted at the index the
  container's policy gives, the other members are kept, and the proxy evaluates to it.
\<close>

theorem evaluate_with_default_inserts_empty_object:
  assumes parent: "json_proxy_evaluate_with_default policy st parent = (Returns val, st1)"
    and obj: "get_place st1 val = Some (object_val p)"
    and ms: "lookup (heap st1) p = Some (json_object ms)"
    and absent: "name \<notin> fst ` set ms"
    and apart: "\<forall>j. val \<noteq> member_value p j"
  shows "\<exists>i st'. json_proxy_evaluate_with_default policy st (json_proxy parent name)
                   = (Returns (member_value p i), st')
          \<and> i = min (policy name (map fst ms)) (length ms)
          \<and> var st' = var st1
          \<and> heap st' = (heap st1 @ [Some (json_object [])])
                          [p := Some (json_object
                                 (take i ms @ [(name, object_val (length (heap st1)))] @ drop i ms))]
          \<and> get_place st' (member_value p i) = Some (object_val (length (heap st1)))
          \<and> lookup (heap st') (length (heap st1)) = Some (json_object [])
          \<and> (\<forall>v. get_place st' (member_value p i) = Some v \<longrightarrow> is_object v \<and> \<not> is_null v)"
proof -
  let ?b = "length (heap st1)"
  let ?i = "min (policy name (map fst ms)) (length ms)"
  let ?h3 = "heap st1 @ [Some (json_object [])]"
  let ?st3 = "st1\<lparr>heap := ?h3\<rparr>"
  let ?ms' = "take ?i ms @ [(name, object_val ?b)] @ drop ?i ms"
  have pl: "p < length (heap st1)" using ms by (simp add: lookup_def split: if_splits)
  have f: "basic_json_find st1 val name = Returns (json_object_end ms)"
    using obj ms json_object_find_absent[OF absent] by (simp add: basic_json_find_def)
  have e: "members_end st1 val = Returns (json_object_end ms)"
    using obj ms by (simp add: members_end_def)
  have b: "members_begin st1 val = Returns (member_iterator 0)"
    using obj ms by (simp add: members_begin_def)
  have ov: "object_value st1 val = (Returns p, st1)"
    using obj by (simp add: object_value_def)
  have vo: "variant_object [] (heap st1) = (object_val ?b, ?h3)"
    by (simp add: variant_object_def create_instance_of_def allocate_def construct_def)
  have g3: "get_place ?st3 val = Some (object_val p)"
    using get_place_heap_append[OF obj] by simp
  have l3: "lookup ?h3 p = Some (json_object ms)" using ms pl by (simp add: lookup_append)
  have js: "json_object_set policy ms (member_iterator 0) name (object_val ?b)
              = (?ms', member_iterator ?i)"
    using json_object_find_absent[OF absent] by (simp add: json_object_set_def Let_def)
  let ?st4 = "?st3\<lparr>heap := ?h3[p := Some (json_object ?ms')]\<rparr>"
  have s: "basic_json_set policy ?st3 val (member_iterator 0) name (object_val ?b)
             = (Returns (member_iterator ?i), ?st4)"
    using g3 l3 js by (simp add: basic_json_set_def)
  have p3: "p < length ?h3" using pl by simp
  have l4: "lookup (heap ?st4) p = Some (json_object ?ms')" using p3 by (simp add: lookup_def)
  have g4: "get_place ?st4 val = Some (object_val p)"
  proof (cases val)
    case this_json
    then show ?thesis using obj by (simp add: get_place_def)
  next
    case (member_value q j)
    with g3 obtain ns where ns: "lookup ?h3 q = Some (json_object ns)" "j < length ns"
        "snd (ns ! j) = object_val p"
      by (auto simp: get_place_def split: option.splits heap_obj.splits if_splits)
    have "q \<noteq> p" using apart member_value by auto
    then have "lookup (heap ?st4) q = Some (json_object ns)"
      using ns by (simp add: lookup_update)
    then show ?thesis using member_value ns by (simp add: get_place_def)
  qed
  have im: "?i < length ?ms'" by simp
  have nth: "?ms' ! ?i = (name, object_val ?b)" by (simp add: nth_append)
  have r: "json_proxy_evaluate_with_default policy st (json_proxy parent name)
             = (Returns (member_value p ?i), ?st4)"
    using parent f e b ov vo s g4 l4 im
    by (simp add: iterator_value_def)
  have gm: "get_place ?st4 (member_value p ?i) = Some (object_val ?b)"
    using l4 im nth by (simp add: get_place_def)
  have lb: "lookup (heap ?st4) ?b = Some (json_object [])"
    using pl by (simp add: lookup_def nth_list_update nth_append)
  show ?thesis
    using r gm lb by (auto simp: is_object_def is_null_def)
qed

theorem evaluate_with_default_inserts_empty_object_witness:
  "json_proxy_evaluate_with_default (\<lambda>name names. length names)
     \<lparr>var = object_val 0, heap = [Some (json_object [([97 :: 8 word], integer_val 1)])]\<rparr>
     (json_proxy (basic_json_ref this_json) [98])
   = (Returns (member_value 0 1),
      \<lparr>var = object_val 0,
       heap = [Some (json_object [([97], integer_val 1), ([98], object_val 1)]),
               Some (json_object [])]\<rparr>)"
  using evaluate_with_default_inserts_empty_object
    [of "\<lambda>name names. length names"
        "\<lparr>var = object_val 0, heap = [Some (json_object [([97 :: 8 word], integer_val 1)])]\<rparr>"
        "basic_json_ref this_json" this_json
        "\<lparr>var = object_val 0, heap = [Some (json_object [([97 :: 8 word], integer_val 1)])]\<rparr>"
        0 "[([97], integer_val 1)]" "[98]"]
  by (auto simp: get_place_def lookup_def)

text \<open>The claim C3 as stated fails: on the object \<open>{}\<close> the write-style access to \<open>"x"\<close>
  leaves \<open>{"x": {}}\<close>, and the entry is not Null.\<close>

theorem evaluate_with_default_does_not_insert_null:
  "json_proxy_evaluate_with_default (\<lambda>name names. 0)
     \<lparr>var = object_val 0, heap = [Some (json_object [])]\<rparr>
     (json_proxy (basic_json_ref this_json) [120 :: 8 word])
   = (Returns (member_value 0 0),
      \<lparr>var = object_val 0,
       heap = [Some (json_object [([120], object_val 1)]), Some (json_object [])]\<rparr>)
   \<and> get_place \<lparr>var = object_val 0,
                 heap = [Some (json_object [([120 :: 8 word], object_val 1)]), Some (json_object [])]\<rparr>
        (member_value 0 0) \<noteq> Some null_value"
  by (simp add: basic_json_find_def members_end_def members_begin_def object_value_def
        variant_object_def create_instance_of_def allocate_def construct_def basic_json_set_def
        json_object_set_def json_object_find_def json_object_end_def iterator_value_def
        get_place_def lookup_def)

lemma get_place_put_place:
  "get_place st pl = Some v \<Longrightarrow> get_place (put_place st pl w) pl = Some w"
  by (cases pl)
     (auto simp: get_place_def put_place_def lookup_def split: option.splits heap_obj.splits if_splits)

text \<open>
  C4 (a read of \<open>r[name]\<close> on an empty object \<open>r\<close> fails with OutOfRange and leaves \<open>r\<close>
  with the EmptyObject tag). Amended: for \<open>r\<close> with the tag \<open>empty_object_t\<close>, \<open>at(name)\<close>
  throws \<open>std::out_of_range\<close> and changes nothing; the non-const \<open>r[name]\<close> first calls
  \<open>create_object_implicitly()\<close>, so that \<open>r\<close> has the tag \<open>object_t\<close> and a new
  \<open>json_object\<close> without members, and evaluating the proxy it returns then throws
  \<open>std::out_of_range\<close>.
\<close>

theorem read_of_empty_object:
  assumes "get_place st pl = Some empty_object_value"
  shows "basic_json_at st pl name = Throws (out_of_range ''%s not found'')
       \<and> basic_json_subscript st pl name
           = (Returns (json_proxy (basic_json_ref pl) name), create_object_implicitly st pl)
       \<and> json_proxy_evaluate (create_object_implicitly st pl) (json_proxy (basic_json_ref pl) name)
           = Throws (out_of_range ''%s not found'')
       \<and> get_place (create_object_implicitly st pl) pl = Some (object_val (length (heap st)))
       \<and> lookup (heap (create_object_implicitly st pl)) (length (heap st)) = Some (json_object [])"
proof -
  let ?b = "length (heap st)"
  let ?st1 = "st\<lparr>heap := heap st @ [Some (json_object [])]\<rparr>"
  let ?st' = "create_object_implicitly st pl"
  have c: "?st' = put_place ?st1 pl (object_val ?b)"
    by (simp add: create_object_implicitly_def create_instance_of_def allocate_def construct_def)
  have g1: "get_place ?st1 pl = Some empty_object_value"
    using get_place_heap_append[OF assms] by simp
  have g: "get_place ?st' pl = Some (object_val ?b)"
    unfolding c using get_place_put_place[OF g1] .
  have l: "lookup (heap ?st') ?b = Some (json_object [])"
  proof (cases pl)
    case this_json
    then show ?thesis unfolding c by (simp add: put_place_def lookup_def)
  next
    case (member_value q j)
    with assms have "q < ?b"
      by (auto simp: get_place_def lookup_def split: option.splits if_splits)
    then show ?thesis unfolding c using member_value
      by (auto simp: put_place_def lookup_def nth_append split: option.splits heap_obj.splits)
  qed
  have "basic_json_at ?st' pl name = Throws (out_of_range ''%s not found'')"
    using g l by (simp add: basic_json_at_def json_object_find_def json_object_end_def)
  then show ?thesis
    using assms g l by (simp add: basic_json_at_def basic_json_subscript_def)
qed

theorem read_of_empty_object_witness:
  "basic_json_at \<lparr>var = object_val 0, heap = [Some (json_object [([97 :: 8 word], empty_object_value)])]\<rparr>
     (member_value 0 0) [120] = Throws (out_of_range ''%s not found'')
   \<and> basic_json_subscript
        \<lparr>var = object_val 0, heap = [Some (json_object [([97 :: 8 word], empty_object_value)])]\<rparr>
        (member_value 0 0) [120]
      = (Returns (json_proxy (basic_json_ref (member_value 0 0)) [120]),
         \<lparr>var = object_val 0,
          heap = [Some (json_object [([97], object_val 1)]), Some (json_object [])]\<rparr>)"
  using read_of_empty_object
    [of "\<lparr>var = object_val 0, heap = [Some (json_object [([97 :: 8 word], empty_object_value)])]\<rparr>"
        "member_value 0 0" "[120]"]
  by (simp add: get_place_def lookup_def create_object_implicitly_def create_instance_of_def
        allocate_def construct_def put_place_def)

text \<open>The claim C4 as stated fails: after the failed read through \<open>r["x"]\<close> the tag of \<open>r\<close>
  is \<open>object_t\<close>.\<close>

theorem read_through_subscript_promotes:
  "basic_json_subscript \<lparr>var = empty_object_value, heap = []\<rparr> this_json [120 :: 8 word]
     = (Returns (json_proxy (basic_json_ref this_json) [120]),
        \<lparr>var = object_val 0, heap = [Some (json_object [])]\<rparr>)
   \<and> json_proxy_evaluate \<lparr>var = object_val 0, heap = [Some (json_object [])]\<rparr>
        (json_proxy (basic_json_ref this_json) [120 :: 8 word])
     = Throws (out_of_range ''%s not found'')
   \<and> variant_type (var (snd (basic_json_subscript \<lparr>var = empty_object_value, heap = []\<rparr>
                                 this_json [120 :: 8 word]))) \<noteq> empty_object_t"
  by (simp add: basic_json_subscript_def get_place_def create_object_implicitly_def
        create_instance_of_def allocate_def construct_def put_place_def basic_json_at_def
        lookup_def json_object_find_def json_object_end_def)

subsection \<open>The copy is deep\<close>



















end
